theory Spec2Isabelle
  imports Complex_Main
begin

section \<open>Errors and JavaScript values\<close>

text \<open>
  The error classes the three adapters import from \<open>./base/errors\<close>, together with the
  \<open>TypeError\<close> the JavaScript runtime raises on a property access or a method call on
  \<open>undefined\<close>. An exception is an error kind with its message.
\<close>

datatype error_kind =
    ExchangeError | BadRequest | AuthenticationError | InsufficientFunds | InvalidOrder
  | InvalidNonce | OrderNotFound | RequestTimeout | DDoSProtection | ExchangeNotAvailable
  | PermissionDenied | NotSupported | ArgumentsRequired | InvalidAddress | TypeError

datatype error = Raise error_kind string

fun kind_of :: "error \<Rightarrow> error_kind" where
  "kind_of (Raise k m) = k"

fun message_of :: "error \<Rightarrow> string" where
  "message_of (Raise k m) = m"

text \<open>
  A JavaScript number is \<open>NaN\<close> or a finite value, kept as a rational (the two infinities
  are outside the model). The rounding of IEEE doubles is applied where a result depends
  on it, in dx's encoding of numbers as value/decimals objects (\<open>to_double\<close> below);
  elsewhere the values the adapters read are short decimals and are kept exact. A
  JavaScript value is
  \<open>undefined\<close>, \<open>null\<close>, a boolean, a number, a string, an array or an object; an object is
  the list of its own properties in insertion order.
\<close>

datatype number = NaN | Num rat

datatype jsval =
    JUndefined | JNull | JBool bool | JNum number | JStr string
  | JArr "jsval list" | JObj "(string \<times> jsval) list"

text \<open>
  What the adapters use of the runtime and of the base class without depending on what it
  computes: the conversion of a number to a string, \<open>this.json\<close> (JSON.stringify),
  \<open>this.iso8601\<close>, \<open>this.parse8601\<close>, \<open>Math.log10\<close>, and what \<open>sign\<close> uses to encode a
  request (\<open>urlencode\<close>, \<open>implodeParams\<close>, \<open>extractParams\<close>, \<open>stringToBase64\<close>, \<open>hmac\<close>).
  \<open>base_method\<close> stands for the pure methods of the base class that turn a response into
  the result of a call (\<open>parseOrderBook\<close>, \<open>parseOHLCVs\<close>, \<open>parseOrders\<close>, \<open>parseTrades\<close>,
  \<open>filterBySymbol\<close>, \<open>filterBy\<close>, \<open>parseBalance\<close>), by name and arguments. They are
  parameters of the model.
\<close>

record runtime =
  numberToString :: "number \<Rightarrow> string"
  json :: "jsval \<Rightarrow> string"
  iso8601 :: "number option \<Rightarrow> string option"
  parse8601 :: "string option \<Rightarrow> number option"
  log10 :: "jsval \<Rightarrow> number"
  urlencode :: "jsval \<Rightarrow> string"
  implodeParams :: "string \<Rightarrow> jsval \<Rightarrow> string"
  extractParams :: "string \<Rightarrow> string list"
  stringToBase64 :: "string \<Rightarrow> string"
  hmac :: "string \<Rightarrow> string \<Rightarrow> string \<Rightarrow> string"
  base_method :: "string \<Rightarrow> jsval list \<Rightarrow> error + jsval"

fun intercalate :: "string \<Rightarrow> string list \<Rightarrow> string" where
  "intercalate sep [] = []"
| "intercalate sep [x] = x"
| "intercalate sep (x # y # ys) = x @ sep @ intercalate sep (y # ys)"

text \<open>\<open>String (x)\<close>: the string a value is coerced to, also when it is used as a property key.\<close>

fun js_string :: "runtime \<Rightarrow> jsval \<Rightarrow> string" where
  "js_string rt JUndefined = ''undefined''"
| "js_string rt JNull = ''null''"
| "js_string rt (JBool b) = (if b then ''true'' else ''false'')"
| "js_string rt (JNum n) = numberToString rt n"
| "js_string rt (JStr s) = s"
| "js_string rt (JArr xs) =
     intercalate '','' (map (\<lambda>x. case x of JUndefined \<Rightarrow> [] | JNull \<Rightarrow> [] | _ \<Rightarrow> js_string rt x) xs)"
| "js_string rt (JObj kvs) = ''[object Object]''"

text \<open>Truthiness, as \<open>if (x)\<close> and \<open>!x\<close> test it.\<close>

fun truthy :: "jsval \<Rightarrow> bool" where
  "truthy JUndefined = False"
| "truthy JNull = False"
| "truthy (JBool b) = b"
| "truthy (JNum NaN) = False"
| "truthy (JNum (Num q)) = (q \<noteq> 0)"
| "truthy (JStr s) = (s \<noteq> [])"
| "truthy (JArr xs) = True"
| "truthy (JObj kvs) = True"

text \<open>
  \<open>o[k]\<close> for a string key: \<open>undefined\<close> and \<open>null\<close> have no properties and the access
  raises; an object yields its property or \<open>undefined\<close>; the keys the adapters read are
  never array indices or \<open>length\<close>, so every other value yields \<open>undefined\<close>.
\<close>

fun member_of :: "jsval \<Rightarrow> string \<Rightarrow> error + jsval" where
  "member_of JUndefined k = Inl (Raise TypeError (''Cannot read property '' @ k @ '' of undefined''))"
| "member_of JNull k = Inl (Raise TypeError (''Cannot read property '' @ k @ '' of null''))"
| "member_of (JObj kvs) k = Inr (case map_of kvs k of Some v \<Rightarrow> v | None \<Rightarrow> JUndefined)"
| "member_of v k = Inr JUndefined"

text \<open>\<open>k in o\<close> for an object: is \<open>k\<close> one of its keys.\<close>

definition has_key :: "string \<Rightarrow> (string \<times> 'a) list \<Rightarrow> bool" where
  "has_key k kvs = (map_of kvs k \<noteq> None)"

section \<open>Helpers of the base class\<close>

text \<open>
  Modelled from the spec: \<open>prop\<close> (here \<open>get_prop\<close>), \<open>safeString\<close>, \<open>safeValue\<close> of \<open>./base/Exchange\<close>,
  which is not among the sources. They read a field defensively: a missing field (or one
  holding \<open>undefined\<close> or \<open>null\<close>) yields the default \<open>undefined\<close> (here \<open>None\<close>), any other
  value is coerced to a string.
\<close>

fun get_prop :: "jsval \<Rightarrow> string \<Rightarrow> jsval" where
  "get_prop (JObj kvs) k = (case map_of kvs k of Some v \<Rightarrow> v | None \<Rightarrow> JUndefined)"
| "get_prop v k = JUndefined"

definition safeString :: "runtime \<Rightarrow> jsval \<Rightarrow> string \<Rightarrow> string option" where
  "safeString rt obj k =
     (case get_prop obj k of JUndefined \<Rightarrow> None | JNull \<Rightarrow> None | v \<Rightarrow> Some (js_string rt v))"

definition safeValue :: "jsval \<Rightarrow> string \<Rightarrow> jsval \<Rightarrow> jsval" where
  "safeValue obj k dflt =
     (case get_prop obj k of JUndefined \<Rightarrow> dflt | JNull \<Rightarrow> dflt | v \<Rightarrow> v)"

text \<open>An optional string where JavaScript concatenates it or uses it as a key.\<close>

fun opt_string :: "string option \<Rightarrow> string" where
  "opt_string None = ''undefined''"
| "opt_string (Some s) = s"

fun opt_jsval :: "string option \<Rightarrow> jsval" where
  "opt_jsval None = JUndefined"
| "opt_jsval (Some s) = JStr s"

text \<open>\<open>s.indexOf (key) >= 0\<close> on strings: \<open>key\<close> occurs in \<open>s\<close>.\<close>

fun starts_with :: "string \<Rightarrow> string \<Rightarrow> bool" where
  "starts_with [] s = True"
| "starts_with (k # ks) [] = False"
| "starts_with (k # ks) (c # cs) = (k = c \<and> starts_with ks cs)"

fun occurs_in :: "string \<Rightarrow> string \<Rightarrow> bool" where
  "occurs_in key [] = (key = [])"
| "occurs_in key (c # cs) = (starts_with key (c # cs) \<or> occurs_in key cs)"

text \<open>
  Modelled from the spec: \<open>findBroadlyMatchedKey\<close> of the base class (not among the
  sources), the lookup in a "broad substring match" table: the first key of the table, in
  its order, that occurs in the given string; \<open>undefined\<close> when there is none. It calls
  \<open>string.indexOf (key)\<close>, which on an array looks for an element equal to the key and
  which a value of any other type does not have.
\<close>

fun findBroadlyMatchedKey :: "(string \<times> error_kind) list \<Rightarrow> jsval \<Rightarrow> error + string option" where
  "findBroadlyMatchedKey [] v = Inr None"
| "findBroadlyMatchedKey ((key, e) # rest) (JStr s) =
     (if occurs_in key s then Inr (Some key) else findBroadlyMatchedKey rest (JStr s))"
| "findBroadlyMatchedKey ((key, e) # rest) (JArr xs) =
     (if JStr key \<in> set xs then Inr (Some key) else findBroadlyMatchedKey rest (JArr xs))"
| "findBroadlyMatchedKey ((key, e) # rest) v =
     Inl (Raise TypeError ''string.indexOf is not a function'')"

section \<open>The exchange object\<close>

text \<open>
  \<open>this\<close>: what \<open>describe ()\<close> configures (id, name, version, the timeframes, the table of
  common currency codes, the two exception tables, the required credentials, the options) and what the
  instance holds while it runs (the credentials, the caches of markets and currencies that
  \<open>loadMarkets\<close> fills). A market and a currency are the objects the loader built.
\<close>

record exchange =
  ex_id :: string
  ex_name :: string
  ex_version :: string
  urls_api :: jsval
  timeframes :: "(string \<times> string) list"
  commonCurrencies :: "(string \<times> string) list"
  exact :: "(string \<times> error_kind) list"
  broad :: "(string \<times> error_kind) list"
  requiredCredentials :: "(string \<times> bool) list"
  credentials :: "(string \<times> string) list"
  options :: "(string \<times> jsval) list"
  markets :: "(string \<times> jsval) list option"
  markets_by_id :: "(string \<times> jsval) list"
  currencies :: "(string \<times> jsval) list option"
  currencies_by_id :: "(string \<times> jsval) list"

section \<open>Error dispatch: handleErrors\<close>

text \<open>
  dx, \<open>handleErrors\<close> (of its seven parameters only \<open>response\<close> is read). \<open>Inr ()\<close> is the
  plain return that leaves the response to the default handler, \<open>Inl\<close> the exception thrown.
  \<open>error in exact\<close> is modelled on the table's own keys (the properties every object
  inherits, such as \<open>constructor\<close>, are not keys of the model).
\<close>

definition dx_handleErrors :: "runtime \<Rightarrow> exchange \<Rightarrow> jsval \<Rightarrow> error + unit" where
  "dx_handleErrors rt this response =
     (if \<not> truthy response then Inr ()
      else case member_of response ''error'' of
        Inl e \<Rightarrow> Inl e
      | Inr err \<Rightarrow>
          if truthy err then
            (let feedback = ex_id this @ '' '' @ json rt response in
             case map_of (exact this) (js_string rt err) of
               Some k \<Rightarrow> Inl (Raise k feedback)
             | None \<Rightarrow>
                 (case findBroadlyMatchedKey (broad this) err of
                    Inl e \<Rightarrow> Inl e
                  | Inr (Some broadKey) \<Rightarrow>
                      (case map_of (broad this) broadKey of
                         Some k \<Rightarrow> Inl (Raise k feedback)
                       | None \<Rightarrow> Inl (Raise TypeError ''broad[broadKey] is not a constructor''))
                  | Inr None \<Rightarrow> Inl (Raise ExchangeError feedback)))
          else Inr ())"

text \<open>gemini, \<open>handleErrors\<close>: the feedback is the id and the \<open>message\<close> field.\<close>

definition gemini_handleErrors :: "runtime \<Rightarrow> exchange \<Rightarrow> jsval \<Rightarrow> error + unit" where
  "gemini_handleErrors rt this response =
     (if response = JUndefined then Inr ()
      else
        let result = safeString rt response ''result'' in
        if result = Some ''error'' then
          (let reason = safeString rt response ''reason'';
               message = safeString rt response ''message'';
               feedback = ex_id this @ '' '' @ opt_string message in
           case map_of (exact this) (opt_string reason) of
             Some k \<Rightarrow> Inl (Raise k feedback)
           | None \<Rightarrow>
               (case map_of (exact this) (opt_string message) of
                  Some k \<Rightarrow> Inl (Raise k feedback)
                | None \<Rightarrow>
                    (case findBroadlyMatchedKey (broad this) (opt_jsval message) of
                       Inl e \<Rightarrow> Inl e
                     | Inr (Some broadKey) \<Rightarrow>
                         (case map_of (broad this) broadKey of
                            Some k \<Rightarrow> Inl (Raise k feedback)
                          | None \<Rightarrow> Inl (Raise TypeError ''broad[broadKey] is not a constructor''))
                     | Inr None \<Rightarrow> Inl (Raise ExchangeError feedback))))
        else Inr ())"

text \<open>
  The lookup as the specification words it: the exact-match table by equality, then the
  broad table by substring (its first matching entry), then the generic fallback.
\<close>

definition broad_match :: "(string \<times> error_kind) list \<Rightarrow> string \<Rightarrow> (string \<times> error_kind) option" where
  "broad_match tbl s = find (\<lambda>(key, k). occurs_in key s) tbl"

definition mapped_kind :: "exchange \<Rightarrow> string \<Rightarrow> error_kind" where
  "mapped_kind this s =
     (case map_of (exact this) s of
        Some k \<Rightarrow> k
      | None \<Rightarrow> (case broad_match (broad this) s of Some (key, k) \<Rightarrow> k | None \<Rightarrow> ExchangeError))"

text \<open>The tables \<open>describe ()\<close> gives dx and gemini.\<close>

definition dx_exact :: "(string \<times> error_kind) list" where
  "dx_exact = [(''EOF'', BadRequest)]"

definition dx_broad :: "(string \<times> error_kind) list" where
  "dx_broad =
     [(''json: cannot unmarshal object into Go value of type'', BadRequest),
      (''not allowed to cancel this order'', BadRequest),
      (''request timed out'', RequestTimeout),
      (''balance_freezing.freezing validation.balance_freeze'', InsufficientFunds),
      (''order_creation.validation.validation'', InvalidOrder)]"

definition gemini_exact :: "(string \<times> error_kind) list" where
  "gemini_exact =
     [(''AuctionNotOpen'', BadRequest), (''ClientOrderIdTooLong'', BadRequest),
      (''ClientOrderIdMustBeString'', BadRequest), (''ConflictingOptions'', BadRequest),
      (''EndpointMismatch'', BadRequest), (''EndpointNotFound'', BadRequest),
      (''IneligibleTiming'', BadRequest), (''InsufficientFunds'', InsufficientFunds),
      (''InvalidJson'', BadRequest), (''InvalidNonce'', InvalidNonce),
      (''InvalidOrderType'', InvalidOrder), (''InvalidPrice'', InvalidOrder),
      (''InvalidQuantity'', InvalidOrder), (''InvalidSide'', InvalidOrder),
      (''InvalidSignature'', AuthenticationError), (''InvalidSymbol'', BadRequest),
      (''InvalidTimestampInPayload'', BadRequest), (''Maintenance'', ExchangeNotAvailable),
      (''MarketNotOpen'', InvalidOrder), (''MissingApikeyHeader'', AuthenticationError),
      (''MissingOrderField'', InvalidOrder), (''MissingRole'', AuthenticationError),
      (''MissingPayloadHeader'', AuthenticationError),
      (''MissingSignatureHeader'', AuthenticationError), (''NoSSL'', AuthenticationError),
      (''OptionsMustBeArray'', BadRequest), (''OrderNotFound'', OrderNotFound),
      (''RateLimit'', DDoSProtection), (''System'', ExchangeError),
      (''UnsupportedOption'', BadRequest)]"

section \<open>Strings\<close>

text \<open>
  \<open>s.split (sep)\<close> for a non-empty separator, \<open>s.replace (pat, rep)\<close> (the first
  occurrence only), \<open>s.toUpperCase ()\<close> and \<open>s.toLowerCase ()\<close> on ASCII letters.
\<close>

function split_from :: "string \<Rightarrow> string \<Rightarrow> string \<Rightarrow> string list" where
  "split_from sep acc [] = [rev acc]"
| "split_from sep acc (c # cs) =
     (if sep \<noteq> [] \<and> starts_with sep (c # cs)
      then rev acc # split_from sep [] (drop (length sep) (c # cs))
      else split_from sep (c # acc) cs)"
  by pat_completeness auto
termination
  by (relation "measure (\<lambda>(sep, acc, s). length s)") auto

definition split :: "string \<Rightarrow> string \<Rightarrow> string list" where
  "split s sep = split_from sep [] s"

fun replace_first :: "string \<Rightarrow> string \<Rightarrow> string \<Rightarrow> string" where
  "replace_first pat rep [] = (if pat = [] then rep else [])"
| "replace_first pat rep (c # cs) =
     (if starts_with pat (c # cs) then rep @ drop (length pat) (c # cs)
      else c # replace_first pat rep cs)"

definition upper_char :: "char \<Rightarrow> char" where
  "upper_char c =
     (let n = (of_char c :: nat) in if 97 \<le> n \<and> n \<le> 122 then char_of (n - 32) else c)"

definition lower_char :: "char \<Rightarrow> char" where
  "lower_char c =
     (let n = (of_char c :: nat) in if 65 \<le> n \<and> n \<le> 90 then char_of (n + 32) else c)"

definition toUpperCase :: "string \<Rightarrow> string" where
  "toUpperCase s = map upper_char s"

definition toLowerCase :: "string \<Rightarrow> string" where
  "toLowerCase s = map lower_char s"

text \<open>\<open>xs[i]\<close> on an array of strings: \<open>undefined\<close> past the end.\<close>

definition at_index :: "'a list \<Rightarrow> nat \<Rightarrow> 'a option" where
  "at_index xs i = (if i < length xs then Some (xs ! i) else None)"

section \<open>Decimal strings\<close>

text \<open>Decimal digits, written and read.\<close>

definition decimal_digits :: string where
  "decimal_digits = ''0123456789''"

definition digit_char :: "nat \<Rightarrow> char" where
  "digit_char d = decimal_digits ! (d mod 10)"

definition is_digit :: "char \<Rightarrow> bool" where
  "is_digit c = (c \<in> set decimal_digits)"

definition digit_val :: "char \<Rightarrow> nat" where
  "digit_val c = length (takeWhile (\<lambda>x. x \<noteq> c) decimal_digits)"

function show_nat :: "nat \<Rightarrow> string" where
  "show_nat n = (if n < 10 then [digit_char n] else show_nat (n div 10) @ [digit_char (n mod 10)])"
  by pat_completeness auto
termination
  by (relation "measure id") auto

declare show_nat.simps [simp del]

definition nat_of_digits :: "string \<Rightarrow> nat" where
  "nat_of_digits ds = foldl (\<lambda>a c. 10 * a + digit_val c) 0 ds"

definition show_int :: "int \<Rightarrow> string" where
  "show_int i = (if i < 0 then ''-'' @ show_nat (nat (- i)) else show_nat (nat i))"

definition pow10 :: "int \<Rightarrow> rat" where
  "pow10 e = (if 0 \<le> e then 10 ^ nat e else 1 / 10 ^ nat (- e))"

definition is_space :: "char \<Rightarrow> bool" where
  "is_space c = (c = CHR '' '' \<or> c = CHR 0x09 \<or> c = CHR 0x0A \<or> c = CHR 0x0D)"

text \<open>An optional sign in front of a numeral: is it negative, and the rest.\<close>

fun read_sign :: "string \<Rightarrow> bool \<times> string" where
  "read_sign [] = (False, [])"
| "read_sign (c # cs) =
     (if c = CHR ''-'' then (True, cs) else if c = CHR ''+'' then (False, cs) else (False, c # cs))"

text \<open>
  \<open>parseInt (s, 10)\<close>: leading white space, an optional sign, then the longest run of
  digits; \<open>NaN\<close> when there is no digit.
\<close>

definition parseInt :: "string \<Rightarrow> number" where
  "parseInt s =
     (let (neg, r) = read_sign (dropWhile is_space s);
          ds = takeWhile is_digit r
      in if ds = [] then NaN
         else Num (if neg then - of_nat (nat_of_digits ds) else of_nat (nat_of_digits ds)))"

text \<open>
  \<open>parseFloat (s)\<close>: leading white space, an optional sign, digits, an optional fraction,
  an optional exponent (taken only when it has a digit); \<open>NaN\<close> when the mantissa has no
  digit. The literal \<open>Infinity\<close> is outside the model.
\<close>

definition read_exponent :: "string \<Rightarrow> int" where
  "read_exponent r =
     (case r of
        [] \<Rightarrow> 0
      | c # cs \<Rightarrow>
          if c = CHR ''e'' \<or> c = CHR ''E'' then
            (let (neg, t) = read_sign cs; ds = takeWhile is_digit t
             in if ds = [] then 0
                else if neg then - int (nat_of_digits ds) else int (nat_of_digits ds))
          else 0)"

definition parseFloat :: "string \<Rightarrow> number" where
  "parseFloat s =
     (let (neg, r) = read_sign (dropWhile is_space s);
          ip = takeWhile is_digit r;
          r1 = dropWhile is_digit r;
          fp = (case r1 of [] \<Rightarrow> [] | c # cs \<Rightarrow> if c = CHR ''.'' then takeWhile is_digit cs else []);
          r2 = (case r1 of [] \<Rightarrow> [] | c # cs \<Rightarrow> if c = CHR ''.'' then dropWhile is_digit cs else r1);
          mag = of_nat (nat_of_digits (ip @ fp)) * pow10 (read_exponent r2 - int (length fp))
      in if ip = [] \<and> fp = [] then NaN else Num (if neg then - mag else mag))"

text \<open>
  Modelled from the spec: \<open>safeInteger\<close> and \<open>safeFloat\<close> of the base class (not among
  the sources): ``numeric fields are parsed defensively (missing \<open>\<rightarrow>\<close> undefined, not
  zero)''. A number or a string is parsed (\<open>parseInt\<close>, \<open>parseFloat\<close>; a number is first
  written as a string, so \<open>parseInt\<close> truncates it); a result that is not a finite number,
  and any other value, yield the default \<open>undefined\<close>.
\<close>

definition safeInteger :: "jsval \<Rightarrow> string \<Rightarrow> rat option" where
  "safeInteger obj k =
     (case get_prop obj k of
        JNum (Num q) \<Rightarrow> Some (if 0 \<le> q then of_int \<lfloor>q\<rfloor> else of_int \<lceil>q\<rceil>)
      | JStr s \<Rightarrow> (case parseInt s of Num q \<Rightarrow> Some q | NaN \<Rightarrow> None)
      | _ \<Rightarrow> None)"

definition safeFloat :: "jsval \<Rightarrow> string \<Rightarrow> rat option" where
  "safeFloat obj k =
     (case get_prop obj k of
        JNum (Num q) \<Rightarrow> Some q
      | JStr s \<Rightarrow> (case parseFloat s of Num q \<Rightarrow> Some q | NaN \<Rightarrow> None)
      | _ \<Rightarrow> None)"

section \<open>Numbers as IEEE doubles\<close>

text \<open>
  A JavaScript number is an IEEE double. \<open>to_double q\<close> is the double nearest to \<open>q\<close>: 53
  significant binary digits, a tie going to the even significand. \<open>binade q\<close> is the
  exponent \<open>e\<close> with \<open>2^e \<le> |q| < 2^(e+1)\<close>, found from the lengths in binary digits of the
  numerator and the denominator. The range of the exponent is not bounded: overflow to
  \<open>Infinity\<close> and the subnormal numbers are outside the model.
\<close>

function bit_length :: "nat \<Rightarrow> nat" where
  "bit_length n = (if n = 0 then 0 else Suc (bit_length (n div 2)))"
  by pat_completeness auto
termination
  by (relation "measure id") auto

declare bit_length.simps [simp del]

definition pow2 :: "int \<Rightarrow> rat" where
  "pow2 e = (if 0 \<le> e then 2 ^ nat e else 1 / 2 ^ nat (- e))"

definition binade :: "rat \<Rightarrow> int" where
  "binade q =
     (let (a, b) = quotient_of \<bar>q\<bar>;
          e = int (bit_length (nat a)) - int (bit_length (nat b))
      in if pow2 e \<le> \<bar>q\<bar> then e else e - 1)"

definition round_half_even :: "rat \<Rightarrow> int" where
  "round_half_even y =
     (let f = \<lfloor>y\<rfloor>; r = y - of_int f
      in if r < 1 / 2 then f else if 1 / 2 < r then f + 1 else if even f then f else f + 1)"

definition to_double :: "rat \<Rightarrow> rat" where
  "to_double q =
     (if q = 0 then 0
      else let u = pow2 (binade q - 52) in of_int (round_half_even (q / u)) * u)"

section \<open>dx: numbers as value/decimals objects\<close>

text \<open>
  Modelled from the spec: \<open>decimalToPrecision (x, ROUND, p, DECIMAL_PLACES, NO_PADDING)\<close>
  and \<open>precisionFromString\<close> of \<open>./base/functions/number\<close> (not among the sources). The
  first writes \<open>x\<close> rounded to \<open>p\<close> decimal places (``the exchange's declared decimal
  precision''), halves away from zero, with no trailing zeros and no sign on zero; the
  second counts the decimal places of such a string, trailing zeros apart.
\<close>

definition round_half_away :: "rat \<Rightarrow> int" where
  "round_half_away q = (if 0 \<le> q then \<lfloor>q + 1 / 2\<rfloor> else - \<lfloor>- q + 1 / 2\<rfloor>)"

definition strip_zeros :: "string \<Rightarrow> string" where
  "strip_zeros s = rev (dropWhile (\<lambda>c. c = CHR ''0'') (rev s))"

definition pad_left :: "nat \<Rightarrow> string \<Rightarrow> string" where
  "pad_left p s = replicate (p - length s) (CHR ''0'') @ s"

definition decimalToPrecision :: "rat \<Rightarrow> nat \<Rightarrow> string" where
  "decimalToPrecision x p =
     (let m = round_half_away (x * 10 ^ p);
          a = nat \<bar>m\<bar>;
          ip = a div 10 ^ p;
          fr = (if p = 0 then [] else strip_zeros (pad_left p (show_nat (a mod 10 ^ p))))
      in (if m < 0 then ''-'' else []) @ show_nat ip @ (if fr = [] then [] else ''.'' @ fr))"

definition precisionFromString :: "string \<Rightarrow> nat" where
  "precisionFromString s =
     (let t = strip_zeros s; r = dropWhile (\<lambda>c. c \<noteq> CHR ''.'') t
      in case r of [] \<Rightarrow> 0 | c # cs \<Rightarrow> length (takeWhile (\<lambda>c. c \<noteq> CHR ''.'') cs))"

fun opt_num :: "rat option \<Rightarrow> jsval" where
  "opt_num None = JUndefined"
| "opt_num (Some q) = JNum (Num q)"

text \<open>
  dx, \<open>numberToObject\<close>, for a finite number. \<open>number\<close> stands for the decimal that is
  written for the number (what \<open>decimalToPrecision\<close> reads); the \<open>value\<close> parsed from the
  digits is a number again, the double nearest to the integer the digits write.
\<close>

definition numberToObject :: "rat \<Rightarrow> jsval" where
  "numberToObject number =
     (let string = decimalToPrecision number 10;
          decimals = precisionFromString string;
          valueStr = replace_first ''.'' [] string
      in JObj [(''value'',
                 opt_num (map_option to_double (safeInteger (JObj [(''a'', JStr valueStr)]) ''a''))),
               (''decimals'', JNum (Num (of_nat decimals)))])"



section \<open>A runtime to run the model with\<close>

text \<open>
  A runtime for concrete runs: numbers written with up to twenty decimal places, a
  JSON.stringify without string escapes, no calendar (dates are \<open>undefined\<close>), no
  logarithm (\<open>NaN\<close>), and stand-ins for the encoders of \<open>sign\<close>.
\<close>

fun stringify :: "jsval \<Rightarrow> string" where
  "stringify JUndefined = ''null''"
| "stringify JNull = ''null''"
| "stringify (JBool b) = (if b then ''true'' else ''false'')"
| "stringify (JNum NaN) = ''null''"
| "stringify (JNum (Num q)) = decimalToPrecision q 20"
| "stringify (JStr s) = [CHR 0x22] @ s @ [CHR 0x22]"
| "stringify (JArr xs) = ''['' @ intercalate '','' (map stringify xs) @ '']''"
| "stringify (JObj kvs) =
     ''{'' @ intercalate '',''
        (map (\<lambda>(k, v). [CHR 0x22] @ k @ [CHR 0x22] @ '':'' @ stringify v)
           (filter (\<lambda>(k, v). v \<noteq> JUndefined) kvs)) @ ''}''"

definition example_runtime :: runtime where
  "example_runtime =
     \<lparr> numberToString = (\<lambda>n. case n of NaN \<Rightarrow> ''NaN'' | Num q \<Rightarrow> decimalToPrecision q 20),
       json = stringify,
       iso8601 = (\<lambda>t. None),
       parse8601 = (\<lambda>s. None),
       log10 = (\<lambda>v. NaN),
       urlencode = stringify,
       implodeParams = (\<lambda>path params. path),
       extractParams = (\<lambda>path. []),
       stringToBase64 = (\<lambda>s. s),
       hmac = (\<lambda>payload secret algorithm. payload @ secret),
       base_method = (\<lambda>name args. Inr (JArr args)) \<rparr>"

section \<open>The three adapters as configured\<close>

text \<open>
  What \<open>describe ()\<close> sets in each adapter, on an instance with no credentials and empty
  caches. The required credentials of gemini and bleutrade are the defaults of the base
  class (\<open>apiKey\<close> and \<open>secret\<close>); dx overrides them.
\<close>

definition dx :: exchange where
  "dx =
     \<lparr> ex_id = ''dx'', ex_name = ''DX.Exchange'', ex_version = ''v1'',
       urls_api = JStr ''https://acl.dx.exchange'',
       timeframes = [(''1m'', ''1m''), (''5m'', ''5m''), (''1h'', ''1h''), (''1d'', ''1d'')],
       commonCurrencies = [(''BCH'', ''Bitcoin Cash'')],
       exact = dx_exact, broad = dx_broad,
       requiredCredentials = [(''apiKey'', True), (''secret'', False)],
       credentials = [],
       options =
         [(''orderTypes'', JObj [(''market'', JNum (Num 1)), (''limit'', JNum (Num 2))]),
          (''orderSide'', JObj [(''buy'', JNum (Num 1)), (''sell'', JNum (Num 2))])],
       markets = None, markets_by_id = [], currencies = None, currencies_by_id = [] \<rparr>"

definition gemini :: exchange where
  "gemini =
     \<lparr> ex_id = ''gemini'', ex_name = ''Gemini'', ex_version = ''v1'',
       urls_api =
         JObj [(''public'', JStr ''https://api.gemini.com''),
               (''private'', JStr ''https://api.gemini.com''),
               (''web'', JStr ''https://docs.gemini.com'')],
       timeframes = [],
       commonCurrencies = [],
       exact = gemini_exact, broad = [],
       requiredCredentials = [(''apiKey'', True), (''secret'', True)],
       credentials = [],
       options = [(''fetchMarketsMethod'', JStr ''fetch_markets_from_web'')],
       markets = None, markets_by_id = [], currencies = None, currencies_by_id = [] \<rparr>"

definition bleutrade :: exchange where
  "bleutrade =
     \<lparr> ex_id = ''bleutrade'', ex_name = ''Bleutrade'', ex_version = ''v2'',
       urls_api =
         JObj [(''public'', JStr ''https://{hostname}/api''),
               (''account'', JStr ''https://{hostname}/api''),
               (''market'', JStr ''https://{hostname}/api'')],
       timeframes =
         [(''15m'', ''15m''), (''20m'', ''20m''), (''30m'', ''30m''), (''1h'', ''1h''),
          (''2h'', ''2h''), (''3h'', ''3h''), (''4h'', ''4h''), (''6h'', ''6h''), (''8h'', ''8h''),
          (''12h'', ''12h''), (''1d'', ''1d'')],
       commonCurrencies = [(''EPC'', ''Epacoin'')],
       exact = [], broad = [],
       requiredCredentials = [(''apiKey'', True), (''secret'', True)],
       credentials = [],
       options =
         [(''parseOrderStatus'', JBool True), (''disableNonce'', JBool False),
          (''symbolSeparator'', JStr ''_'')],
       markets = None, markets_by_id = [], currencies = None, currencies_by_id = [] \<rparr>"

section \<open>Calls to the exchange\<close>

text \<open>
  A method of an adapter runs on a session: the exchange object and the trace of what the
  method did so far. It returns a value or raises, and leaves the session as it is then.
  The trace records each call of \<open>loadMarkets\<close>, each resolution of a symbol
  (\<open>this.market (symbol)\<close>, \<open>this.marketId (symbol)\<close>, and whether it found the symbol)
  and each request sent to the
  exchange: the api, the HTTP method, the endpoint and the parameters. The HTTP transport
  is an external collaborator: \<open>net\<close> gives, for a request, the parsed response or the
  exception the transport, the signer or the error handler raised for it.
\<close>

datatype event =
    LoadMarkets
  | ResolveSymbol "string option" bool
  | Request string string string jsval

record session =
  self :: exchange
  trace :: "event list"

type_synonym 'a action = "session \<Rightarrow> (error + 'a) \<times> session"

type_synonym network = "string \<Rightarrow> string \<Rightarrow> string \<Rightarrow> jsval \<Rightarrow> error + jsval"

definition return :: "'a \<Rightarrow> 'a action" where
  "return x s = (Inr x, s)"

definition throw :: "error \<Rightarrow> 'a action" where
  "throw e s = (Inl e, s)"

definition lift :: "error + 'a \<Rightarrow> 'a action" where
  "lift r s = (r, s)"

definition bind :: "'a action \<Rightarrow> ('a \<Rightarrow> 'b action) \<Rightarrow> 'b action" where
  "bind m f s = (case m s of (Inl e, s') \<Rightarrow> (Inl e, s') | (Inr x, s') \<Rightarrow> f x s')"

definition get_this :: "exchange action" where
  "get_this s = (Inr (self s), s)"

definition log_event :: "event \<Rightarrow> unit action" where
  "log_event ev s = (Inr (), s\<lparr>trace := trace s @ [ev]\<rparr>)"

definition request :: "network \<Rightarrow> string \<Rightarrow> string \<Rightarrow> string \<Rightarrow> jsval \<Rightarrow> jsval action" where
  "request net api method path params =
     bind (log_event (Request api method path params)) (\<lambda>_. lift (net api method path params))"

text \<open>The same sequencing on plain results, for the pure parts of a method.\<close>

definition bind_result :: "error + 'a \<Rightarrow> ('a \<Rightarrow> error + 'b) \<Rightarrow> error + 'b" where
  "bind_result r f = (case r of Inl e \<Rightarrow> Inl e | Inr x \<Rightarrow> f x)"

fun map_result :: "('a \<Rightarrow> error + 'b) \<Rightarrow> 'a list \<Rightarrow> error + 'b list" where
  "map_result f [] = Inr []"
| "map_result f (x # xs) =
     (case f x of
        Inl e \<Rightarrow> Inl e
      | Inr y \<Rightarrow> (case map_result f xs of Inl e \<Rightarrow> Inl e | Inr ys \<Rightarrow> Inr (y # ys)))"

text \<open>
  Modelled from the spec: \<open>extend\<close> of the base class (not among the sources), which the
  adapters use to merge the caller's \<open>params\<close> over the request they built: the keys of
  the first object in their order, each with the value the second object gives it if it
  has the key, then the other keys of the second object.
\<close>

definition extend :: "(string \<times> jsval) list \<Rightarrow> (string \<times> jsval) list \<Rightarrow> (string \<times> jsval) list" where
  "extend a b =
     map (\<lambda>(k, v). (k, case map_of b k of Some w \<Rightarrow> w | None \<Rightarrow> v)) a
     @ filter (\<lambda>(k, w). map_of a k = None) b"

text \<open>
  The values a \<open>for\<close> loop over \<open>x.length\<close> visits: the elements of an array, the
  characters of a string, nothing for a value without a length; \<open>undefined\<close> and \<open>null\<close>
  raise.
\<close>

fun elements :: "jsval \<Rightarrow> error + jsval list" where
  "elements (JArr xs) = Inr xs"
| "elements (JStr s) = Inr (map (\<lambda>c. JStr [c]) s)"
| "elements JUndefined = Inl (Raise TypeError ''Cannot read property length of undefined'')"
| "elements JNull = Inl (Raise TypeError ''Cannot read property length of null'')"
| "elements v = Inr []"

text \<open>
  Modelled from the spec: \<open>commonCurrencyCode\<close> of the base class (not among the sources):
  the canonical code of a currency, looked up in the table of common currencies; a code
  the table does not list is its own canonical code, and \<open>undefined\<close> stays \<open>undefined\<close>.
\<close>

definition commonCurrencyCode :: "exchange \<Rightarrow> string option \<Rightarrow> string option" where
  "commonCurrencyCode ex currency =
     (case currency of
        None \<Rightarrow> None
      | Some c \<Rightarrow> (case map_of (commonCurrencies ex) c of Some code \<Rightarrow> Some code | None \<Rightarrow> Some c))"

section \<open>Market loaders\<close>

text \<open>dx, \<open>fetchMarkets\<close>: the market built from one instrument (the body of the loop).\<close>

definition dx_market :: "runtime \<Rightarrow> exchange \<Rightarrow> jsval \<Rightarrow> error + jsval" where
  "dx_market rt ex instrument =
     (let id = safeString rt instrument ''id'';
          numericId = safeInteger instrument ''id'';
          asset = safeValue instrument ''asset'' (JObj []);
          fullName = safeString rt asset ''fullName''
      in case fullName of
           None \<Rightarrow> Inl (Raise TypeError ''Cannot read property split of undefined'')
         | Some name \<Rightarrow>
             (let parts = split name ''/'';
                  base0 = at_index parts 0;
                  quote0 = at_index parts 1
              in bind_result (member_of instrument ''meQuantityMultiplier'') (\<lambda>multiplier.
                 let amountPrecision =
                       (if multiplier \<noteq> JNum (Num 0) then log10 rt multiplier else Num 0);
                     base = commonCurrencyCode ex base0;
                     quote = commonCurrencyCode ex quote0;
                     baseId = safeString rt asset ''baseCurrencyId'';
                     quoteId = safeString rt asset ''quotedCurrencyId'';
                     baseNumericId = safeInteger asset ''baseCurrencyId'';
                     quoteNumericId = safeInteger asset ''quotedCurrencyId'';
                     symbol = opt_string base @ ''/'' @ opt_string quote
                 in Inr (JObj
                      [(''id'', opt_jsval id),
                       (''numericId'', opt_num numericId),
                       (''symbol'', JStr symbol),
                       (''base'', opt_jsval base),
                       (''quote'', opt_jsval quote),
                       (''baseId'', opt_jsval baseId),
                       (''quoteId'', opt_jsval quoteId),
                       (''baseNumericId'', opt_num baseNumericId),
                       (''quoteNumericId'', opt_num quoteNumericId),
                       (''info'', instrument),
                       (''precision'', JObj
                          [(''amount'', JNum amountPrecision),
                           (''price'', opt_num (safeInteger asset ''tailDigits''))]),
                       (''limits'', JObj
                          [(''amount'', JObj
                              [(''min'', opt_num (safeFloat instrument ''minOrderQuantity'')),
                               (''max'', opt_num (safeFloat instrument ''maxOrderQuantity''))]),
                           (''price'', JObj [(''min'', JNum (Num 0)), (''max'', JUndefined)]),
                           (''cost'', JObj [(''min'', JNum (Num 0)), (''max'', JUndefined)])])]))))"

definition dx_fetchMarkets :: "runtime \<Rightarrow> network \<Rightarrow> jsval \<Rightarrow> jsval list action" where
  "dx_fetchMarkets rt net params =
     bind (request net ''public'' ''post'' ''AssetManagement.GetInstruments'' params) (\<lambda>markets.
     bind get_this (\<lambda>ex.
     lift (bind_result (member_of markets ''result'') (\<lambda>result.
           bind_result (member_of result ''instruments'') (\<lambda>instruments.
           bind_result (elements instruments) (\<lambda>xs.
           map_result (dx_market rt ex) xs))))))"

text \<open>gemini, \<open>fetchMarketsFromAPI\<close>: the market built from one symbol id.\<close>

definition gemini_market_from_id :: "exchange \<Rightarrow> jsval \<Rightarrow> error + jsval" where
  "gemini_market_from_id ex v =
     (case v of
        JStr ident \<Rightarrow>
          (let market = JStr ident;
               baseId = take 3 ident;
               quoteId = take 3 (drop 3 ident);
               base = commonCurrencyCode ex (Some (toUpperCase baseId));
               quote = commonCurrencyCode ex (Some (toUpperCase quoteId));
               symbol = opt_string base @ ''/'' @ opt_string quote;
               unset = JObj [(''min'', JUndefined), (''max'', JUndefined)]
           in Inr (JObj
                [(''id'', JStr ident),
                 (''info'', market),
                 (''symbol'', JStr symbol),
                 (''base'', opt_jsval base),
                 (''quote'', opt_jsval quote),
                 (''baseId'', JStr baseId),
                 (''quoteId'', JStr quoteId),
                 (''precision'', JObj [(''amount'', JUndefined), (''price'', JUndefined)]),
                 (''limits'', JObj [(''amount'', unset), (''price'', unset), (''cost'', unset)])]))
      | _ \<Rightarrow> Inl (Raise TypeError ''id.slice is not a function''))"

definition gemini_fetchMarketsFromAPI :: "network \<Rightarrow> jsval \<Rightarrow> jsval list action" where
  "gemini_fetchMarketsFromAPI net params =
     bind (request net ''public'' ''get'' ''symbols'' params) (\<lambda>response.
     bind get_this (\<lambda>ex.
     lift (bind_result (elements response) (\<lambda>ids.
           map_result (gemini_market_from_id ex) ids))))"

text \<open>
  gemini, \<open>fetchMarketsFromWeb\<close>: the markets are read off the table of symbols and
  minimums in the HTML of the API documentation. First the market built from one row of
  the table (the body of the loop), given the message of the \<open>NotSupported\<close> error.
\<close>

definition gemini_market_from_row :: "exchange \<Rightarrow> string \<Rightarrow> string \<Rightarrow> error + jsval" where
  "gemini_market_from_row ex error row =
     (let cells = split row (''</td>'' @ [CHR 0x0A]);
          numCells = length cells
      in if numCells < 7 then Inl (Raise NotSupported error)
         else
           (let id1 = replace_first ''<td>'' [] (cells ! 0);
                id2 = replace_first (''<code class='' @ [CHR 0x22] @ ''prettyprint'' @ [CHR 0x22] @ ''>'') [] id1;
                id3 = replace_first ''</code>'' [] id2;
                baseId = replace_first ''<td>'' [] (cells ! 2);
                quoteId = replace_first ''<td>'' [] (cells ! 1);
                minAmountAsString = replace_first ''<td>'' [] (cells ! 3);
                amountTickSizeAsString = replace_first ''<td>'' [] (cells ! 4);
                priceTickSizeAsString = replace_first ''<td>'' [] (cells ! 5);
                minAmount = split minAmountAsString '' '';
                amountPrecision = split amountTickSizeAsString '' '';
                pricePrecision = split priceTickSizeAsString '' '';
                base = commonCurrencyCode ex (Some baseId);
                quote = commonCurrencyCode ex (Some quoteId);
                symbol = opt_string base @ ''/'' @ opt_string quote;
                precision = JObj
                  [(''amount'', JNum (Num (of_nat (precisionFromString (hd amountPrecision))))),
                   (''price'', JNum (Num (of_nat (precisionFromString (hd pricePrecision)))))];
                unset = JObj [(''min'', JUndefined), (''max'', JUndefined)]
            in Inr (JObj
                 [(''id'', JStr id3),
                  (''info'', JStr row),
                  (''symbol'', JStr symbol),
                  (''base'', opt_jsval base),
                  (''quote'', opt_jsval quote),
                  (''baseId'', JStr (toLowerCase baseId)),
                  (''quoteId'', JStr (toLowerCase quoteId)),
                  (''active'', JUndefined),
                  (''precision'', precision),
                  (''limits'', JObj
                     [(''amount'', JObj
                         [(''min'', JNum (parseFloat (hd minAmount))), (''max'', JUndefined)]),
                      (''price'', unset),
                      (''cost'', unset)])])))"

definition gemini_markup_error :: "exchange \<Rightarrow> string" where
  "gemini_markup_error ex =
     ex_id ex @ '' the '' @ ex_name ex
     @ '' API doc HTML markup has changed, breaking the parser of order limits and precision info for ''
     @ ex_name ex @ '' markets.''"

definition gemini_markets_of_page :: "exchange \<Rightarrow> jsval \<Rightarrow> error + jsval list" where
  "gemini_markets_of_page ex response =
     (case response of
        JStr page \<Rightarrow>
          (let sections = split page
                 (''<h1 id='' @ [CHR 0x22] @ ''symbols-and-minimums'' @ [CHR 0x22]
                  @ ''>Symbols and minimums</h1>'');
               error = gemini_markup_error ex
           in if length sections \<noteq> 2 then Inl (Raise NotSupported error)
              else
                (let tables = split (sections ! 1) ''tbody>''
                 in if length tables < 2 then Inl (Raise NotSupported error)
                    else
                      (let rows = split (tables ! 1) (''<tr>'' @ [CHR 0x0A])
                       in if length rows < 2 then Inl (Raise NotSupported error)
                          else map_result (gemini_market_from_row ex error) (tl rows))))
      | _ \<Rightarrow> Inl (Raise TypeError ''response.split is not a function''))"

definition gemini_fetchMarketsFromWeb :: "network \<Rightarrow> jsval \<Rightarrow> jsval \<Rightarrow> jsval list action" where
  "gemini_fetchMarketsFromWeb net symbols params =
     bind (request net ''web'' ''get'' ''rest-api'' params) (\<lambda>response.
     bind get_this (\<lambda>ex.
     lift (gemini_markets_of_page ex response)))"

text \<open>
  gemini, \<open>fetchMarkets\<close>: \<open>this[method] (params)\<close> with the method the options name
  (the base class gives every method its name in snake case too). \<open>fetchMarketsFromWeb\<close>
  receives \<open>params\<close> as its first parameter \<open>symbols\<close> and the default \<open>{}\<close> as \<open>params\<close>.
\<close>

definition gemini_fetchMarkets :: "network \<Rightarrow> jsval \<Rightarrow> jsval list action" where
  "gemini_fetchMarkets net params =
     bind get_this (\<lambda>ex.
     let method = safeValue (JObj (options ex)) ''fetchMarketsMethod'' (JStr ''fetch_markets_from_api'')
     in if method = JStr ''fetch_markets_from_web'' \<or> method = JStr ''fetchMarketsFromWeb''
        then gemini_fetchMarketsFromWeb net params (JObj [])
        else if method = JStr ''fetch_markets_from_api'' \<or> method = JStr ''fetchMarketsFromAPI''
        then gemini_fetchMarketsFromAPI net params
        else throw (Raise TypeError ''this[method] is not a function''))"

text \<open>
  bleutrade, \<open>parseSymbol\<close>, for a string id. A separator that is not a string leaves the
  id unsplit.
\<close>

definition bleutrade_parseSymbol :: "exchange \<Rightarrow> string \<Rightarrow> string" where
  "bleutrade_parseSymbol ex ident =
     (let parts = (case map_of (options ex) ''symbolSeparator'' of
                     Some (JStr sep) \<Rightarrow> split ident sep
                   | _ \<Rightarrow> [ident]);
          base = commonCurrencyCode ex (at_index parts 0);
          quote = commonCurrencyCode ex (at_index parts 1)
      in opt_string base @ ''/'' @ opt_string quote)"

text \<open>
  The property of a market as the specification words it: its base and quote are the
  common currency codes of the two native codes \<open>b\<close> and \<open>q\<close>, and its symbol is
  \<open>base + '/' + quote\<close>.
\<close>

definition symbol_from_codes :: "runtime \<Rightarrow> exchange \<Rightarrow> jsval \<Rightarrow> string option \<Rightarrow> string option \<Rightarrow> bool" where
  "symbol_from_codes rt ex m b q =
     (get_prop m ''base'' = opt_jsval (commonCurrencyCode ex b)
      \<and> get_prop m ''quote'' = opt_jsval (commonCurrencyCode ex q)
      \<and> get_prop m ''symbol'' =
          JStr (js_string rt (get_prop m ''base'') @ ''/'' @ js_string rt (get_prop m ''quote'')))"

section \<open>Request signing\<close>

text \<open>
  Modelled from the spec: \<open>checkRequiredCredentials\<close> of the base class (not among the
  sources): it ``fails fast with AuthenticationError if credentials are missing'': the
  first required credential, in the order of \<open>requiredCredentials\<close>, that the instance
  does not hold (or holds as the empty string) raises.
\<close>

fun checkRequiredCredentials :: "exchange \<Rightarrow> (string \<times> bool) list \<Rightarrow> error + unit" where
  "checkRequiredCredentials ex [] = Inr ()"
| "checkRequiredCredentials ex ((key, required) # rest) =
     (if required \<and> (case map_of (credentials ex) key of None \<Rightarrow> True | Some v \<Rightarrow> v = [])
      then Inl (Raise AuthenticationError (ex_id ex @ '' requires '' @ key))
      else checkRequiredCredentials ex rest)"

text \<open>
  dx, \<open>sign\<close>. The clock is read twice, for the id of the JSON-RPC call (\<open>now_id\<close>) and
  for the expiry check (\<open>now\<close>). The result is the request object.
\<close>

definition dx_sign ::
  "runtime \<Rightarrow> exchange \<Rightarrow> rat \<Rightarrow> rat \<Rightarrow> string \<Rightarrow> string \<Rightarrow> string \<Rightarrow> jsval \<Rightarrow> jsval \<Rightarrow> jsval
     \<Rightarrow> error + jsval" where
  "dx_sign rt ex now_id now path api method params headers body =
     (let params1 = (if params = JArr [] then JObj [(''__associative'', JBool True)] else params);
          parameters = JObj
            [(''jsonrpc'', JStr ''2.0''),
             (''id'', JNum (Num now_id)),
             (''method'', JStr path),
             (''params'', JArr [params1])];
          url0 = js_string rt (urls_api ex);
          headers1 = [(''Content-Type'', JStr ''application/json-rpc'')];
          url = (if method = ''GET'' then url0 @ ''?'' @ urlencode rt parameters else url0);
          body1 = (if method = ''GET'' then body else JStr (json rt parameters))
      in if api = ''private'' then
           (case safeString rt (JObj (options ex)) ''accessToken'' of
              None \<Rightarrow>
                Inl (Raise AuthenticationError
                  (ex_id ex @ '' '' @ path @ '' endpoint requires a prior call to signIn() method''))
            | Some token \<Rightarrow>
                (let expires = safeInteger (JObj (options ex)) ''expires''
                 in case expires of
                      None \<Rightarrow>
                        Inr (JObj [(''url'', JStr url), (''method'', JStr method), (''body'', body1),
                                   (''headers'', JObj (headers1 @ [(''Authorization'', JStr token)]))])
                    | Some e \<Rightarrow>
                        if now \<ge> e then
                          Inl (Raise AuthenticationError
                            (ex_id ex @ '' accessToken expired, call signIn() method''))
                        else
                          Inr (JObj [(''url'', JStr url), (''method'', JStr method), (''body'', body1),
                                     (''headers'', JObj (headers1 @ [(''Authorization'', JStr token)]))])))
         else
           Inr (JObj [(''url'', JStr url), (''method'', JStr method), (''body'', body1),
                      (''headers'', JObj headers1)]))"

text \<open>
  gemini, \<open>sign\<close>. \<open>this.nonce ()\<close> is \<open>this.milliseconds ()\<close>, the clock read once
  (\<open>now\<close>); \<open>encode\<close> and \<open>decode\<close> leave a string as it is.
\<close>

definition omit :: "(string \<times> jsval) list \<Rightarrow> string list \<Rightarrow> (string \<times> jsval) list" where
  "omit params ks = filter (\<lambda>(k, v). k \<notin> set ks) params"

definition opt_cred :: "exchange \<Rightarrow> string \<Rightarrow> jsval" where
  "opt_cred ex key = (case map_of (credentials ex) key of None \<Rightarrow> JUndefined | Some v \<Rightarrow> JStr v)"

definition gemini_sign ::
  "runtime \<Rightarrow> exchange \<Rightarrow> rat \<Rightarrow> string \<Rightarrow> string \<Rightarrow> string \<Rightarrow> (string \<times> jsval) list \<Rightarrow> jsval \<Rightarrow> jsval
     \<Rightarrow> error + jsval" where
  "gemini_sign rt ex now path api method params headers body =
     (let url0 = ''/'' @ implodeParams rt path (JObj params);
          url1 = (if api \<noteq> ''web'' then ''/'' @ ex_version ex @ url0 else url0);
          query = omit params (extractParams rt path);
          base_url = js_string rt (get_prop (urls_api ex) api)
      in if api = ''private'' then
           bind_result (checkRequiredCredentials ex (requiredCredentials ex)) (\<lambda>_.
             let nonce = now;
                 request = extend [(''request'', JStr url1), (''nonce'', JNum (Num nonce))] query;
                 payload = stringToBase64 rt (json rt (JObj request));
                 signature = hmac rt payload (js_string rt (opt_cred ex ''secret'')) ''sha384'';
                 headers1 = JObj
                   [(''Content-Type'', JStr ''text/plain''),
                    (''X-GEMINI-APIKEY'', opt_cred ex ''apiKey''),
                    (''X-GEMINI-PAYLOAD'', JStr payload),
                    (''X-GEMINI-SIGNATURE'', JStr signature)]
             in Inr (JObj [(''url'', JStr (base_url @ url1)), (''method'', JStr method),
                           (''body'', body), (''headers'', headers1)]))
         else
           (let url2 = (if query \<noteq> [] then url1 @ ''?'' @ urlencode rt (JObj query) else url1)
            in Inr (JObj [(''url'', JStr (base_url @ url2)), (''method'', JStr method),
                          (''body'', body), (''headers'', headers)])))"

section \<open>The market cache\<close>

text \<open>
  Modelled from the spec: \<open>loadMarkets\<close>, \<open>market\<close>, \<open>marketId\<close> and \<open>currency\<close> of the base
  class (not among the sources). The market loader ``fetches and caches the exchange's
  instrument list, building bidirectional lookup maps (symbol \<open>\<rightarrow>\<close> market, exchange-native
  id \<open>\<rightarrow>\<close> market)''; ``subsequent calls reuse the cache''; a failure of the fetch is
  raised to the caller. The currencies are those of the markets. Resolving a symbol fails
  when the cache is not populated and when the symbol is not in it (the ``unknown
  symbol'' failure); the trace records each resolution with its outcome.
\<close>

definition index_by :: "runtime \<Rightarrow> string \<Rightarrow> jsval list \<Rightarrow> (string \<times> jsval) list" where
  "index_by rt k ms = rev (map (\<lambda>m. (js_string rt (get_prop m k), m)) ms)"

definition currencies_of :: "jsval list \<Rightarrow> jsval list" where
  "currencies_of ms =
     concat (map (\<lambda>m.
       [JObj [(''id'', (if get_prop m ''baseId'' = JUndefined then get_prop m ''base''
                        else get_prop m ''baseId'')),
              (''code'', get_prop m ''base'')],
        JObj [(''id'', (if get_prop m ''quoteId'' = JUndefined then get_prop m ''quote''
                        else get_prop m ''quoteId'')),
              (''code'', get_prop m ''quote'')]]) ms)"

definition setMarkets :: "runtime \<Rightarrow> jsval list \<Rightarrow> unit action" where
  "setMarkets rt ms s =
     (Inr (), s\<lparr>self := (self s)
        \<lparr>markets := Some (index_by rt ''symbol'' ms),
         markets_by_id := index_by rt ''id'' ms,
         currencies := Some (index_by rt ''code'' (currencies_of ms)),
         currencies_by_id := index_by rt ''id'' (currencies_of ms)\<rparr>\<rparr>)"

definition loadMarkets :: "runtime \<Rightarrow> jsval list action \<Rightarrow> unit action" where
  "loadMarkets rt fetchMarkets =
     bind (log_event LoadMarkets) (\<lambda>_.
     bind get_this (\<lambda>ex.
       case markets ex of
         Some ms \<Rightarrow> return ()
       | None \<Rightarrow> bind fetchMarkets (setMarkets rt)))"

definition resolved :: "string option \<Rightarrow> jsval \<Rightarrow> jsval action" where
  "resolved symbol m = bind (log_event (ResolveSymbol symbol True)) (\<lambda>_. return m)"

definition unresolved :: "string option \<Rightarrow> string \<Rightarrow> jsval action" where
  "unresolved symbol message =
     bind (log_event (ResolveSymbol symbol False)) (\<lambda>_. throw (Raise ExchangeError message))"

definition market :: "string option \<Rightarrow> jsval action" where
  "market symbol =
     bind get_this (\<lambda>ex.
       case markets ex of
         None \<Rightarrow> unresolved symbol (ex_id ex @ '' markets not loaded'')
       | Some ms \<Rightarrow>
           (case symbol of
              None \<Rightarrow> unresolved symbol (ex_id ex @ '' No market symbol undefined'')
            | Some sname \<Rightarrow>
                (case map_of ms sname of
                   Some m \<Rightarrow> resolved symbol m
                 | None \<Rightarrow> unresolved symbol (ex_id ex @ '' No market symbol '' @ sname))))"

definition marketId :: "string option \<Rightarrow> jsval action" where
  "marketId symbol = bind (market symbol) (\<lambda>m. lift (member_of m ''id''))"

definition currency :: "string \<Rightarrow> jsval action" where
  "currency code =
     bind get_this (\<lambda>ex.
       case currencies ex of
         None \<Rightarrow> throw (Raise ExchangeError (ex_id ex @ '' currencies not loaded''))
       | Some cs \<Rightarrow>
           (case map_of cs code of
              Some c \<Rightarrow> return c
            | None \<Rightarrow> throw (Raise ExchangeError (ex_id ex @ '' does not have currency code '' @ code))))"

text \<open>
  Modelled from the spec: \<open>checkAddress\<close> of the base class (not among the sources), the
  validation of a destination address; what makes an address valid is a parameter.
\<close>

definition checkAddress :: "(string option \<Rightarrow> bool) \<Rightarrow> string option \<Rightarrow> string option action" where
  "checkAddress valid address =
     bind get_this (\<lambda>ex.
       if valid address then return address
       else throw (Raise InvalidAddress (ex_id ex @ '' address is invalid '' @ opt_string address)))"

section \<open>Response parsers\<close>

text \<open>
  An optional number as the field of a record; the number \<open>undefined\<close> converts to in
  arithmetic (\<open>NaN\<close>); division and multiplication of numbers.
\<close>

fun to_number :: "rat option \<Rightarrow> number" where
  "to_number None = NaN"
| "to_number (Some q) = Num q"

fun num_times :: "number \<Rightarrow> number \<Rightarrow> number" where
  "num_times (Num a) (Num b) = Num (a * b)"
| "num_times a b = NaN"

fun num_divide :: "number \<Rightarrow> number \<Rightarrow> number" where
  "num_divide (Num a) (Num b) = (if b = 0 then NaN else Num (a / b))"
| "num_divide a b = NaN"


text \<open>\<open>Object.keys (x)\<close>, for the values a response can hold.\<close>

fun object_keys :: "jsval \<Rightarrow> error + string list" where
  "object_keys (JObj kvs) = Inr (map fst kvs)"
| "object_keys JUndefined = Inl (Raise TypeError ''Cannot convert undefined or null to object'')"
| "object_keys JNull = Inl (Raise TypeError ''Cannot convert undefined or null to object'')"
| "object_keys v = Inr []"

text \<open>\<open>this.markets_by_id[key]['symbol']\<close>: raises when the id is unknown.\<close>

definition symbol_by_id :: "exchange \<Rightarrow> string \<Rightarrow> error + jsval" where
  "symbol_by_id ex key =
     member_of (case map_of (markets_by_id ex) key of Some m \<Rightarrow> m | None \<Rightarrow> JUndefined) ''symbol''"

text \<open>dx, \<open>parseTicker\<close>.\<close>

definition dx_parseTicker :: "runtime \<Rightarrow> exchange \<Rightarrow> jsval \<Rightarrow> jsval \<Rightarrow> error + jsval" where
  "dx_parseTicker rt ex ticker0 mkt =
     bind_result (object_keys ticker0) (\<lambda>tickerKeys.
       let tickerKey = at_index tickerKeys 0;
           instrumentId = safeInteger (JObj [(''a'', opt_jsval tickerKey)]) ''a''
       in bind_result (member_of ticker0 (opt_string tickerKey)) (\<lambda>ticker.
          bind_result (symbol_by_id ex (js_string rt (opt_num instrumentId))) (\<lambda>symbol.
            let last = safeFloat ticker ''last'';
                timestamp = num_divide (to_number (safeInteger ticker ''time'')) (Num 1000)
            in Inr (JObj
                 [(''symbol'', symbol),
                  (''timestamp'', JNum timestamp),
                  (''datetime'', opt_jsval (iso8601 rt (Some timestamp))),
                  (''high'', opt_num (safeFloat ticker ''high24'')),
                  (''low'', opt_num (safeFloat ticker ''low24'')),
                  (''bid'', JUndefined),
                  (''bidVolume'', JUndefined),
                  (''ask'', JUndefined),
                  (''askVolume'', JUndefined),
                  (''vwap'', JUndefined),
                  (''open'', JUndefined),
                  (''close'', opt_num last),
                  (''last'', opt_num last),
                  (''previousClose'', JUndefined),
                  (''change'', opt_num (safeFloat ticker ''change'')),
                  (''percentage'', JUndefined),
                  (''average'', JUndefined),
                  (''baseVolume'', opt_num (safeFloat ticker ''volume24'')),
                  (''quoteVolume'', opt_num (safeFloat ticker ''volume24converted'')),
                  (''info'', ticker)]))))"

text \<open>dx, \<open>parseOHLCV\<close>.\<close>

definition dx_parseOHLCV :: "jsval \<Rightarrow> jsval" where
  "dx_parseOHLCV ohlcv =
     JArr [JNum (num_times (to_number (safeFloat ohlcv ''date'')) (Num 1000)),
           opt_num (safeFloat ohlcv ''open''),
           opt_num (safeFloat ohlcv ''high''),
           opt_num (safeFloat ohlcv ''low''),
           opt_num (safeFloat ohlcv ''close''),
           opt_num (safeFloat ohlcv ''volume'')]"








definition member_string :: "runtime \<Rightarrow> jsval \<Rightarrow> string \<Rightarrow> error + string" where
  "member_string rt obj k = bind_result (member_of obj k) (\<lambda>v. Inr (js_string rt v))"

definition bleutrade_parseOHLCV :: "runtime \<Rightarrow> jsval \<Rightarrow> error + jsval" where
  "bleutrade_parseOHLCV rt ohlcv =
     bind_result (member_string rt ohlcv ''TimeStamp'') (\<lambda>ts.
       let timestamp = parse8601 rt (Some (ts @ ''+00:00''))
       in Inr (JArr [(case timestamp of None \<Rightarrow> JUndefined | Some n \<Rightarrow> JNum n),
                     opt_num (safeFloat ohlcv ''Open''),
                     opt_num (safeFloat ohlcv ''High''),
                     opt_num (safeFloat ohlcv ''Low''),
                     opt_num (safeFloat ohlcv ''Close''),
                     opt_num (safeFloat ohlcv ''Volume'')]))"

fun opt_number :: "number option \<Rightarrow> jsval" where
  "opt_number None = JUndefined"
| "opt_number (Some n) = JNum n"


text \<open>
  bleutrade, \<open>parseTransaction\<close>. \<open>amount < 0\<close> is false for \<open>undefined\<close>. The parameter
  \<open>currency\<close> is overwritten before it is read. \<open>label.split\<close> raises when there is no
  label. \<open>parseFloat\<close> of a label part may be \<open>NaN\<close>.
\<close>

definition bleutrade_parseTransaction :: "runtime \<Rightarrow> exchange \<Rightarrow> jsval \<Rightarrow> error + jsval" where
  "bleutrade_parseTransaction rt ex transaction =
     (let id = safeString rt transaction ''Id'';
          amount0 = safeFloat transaction ''Amount'';
          negative = (case amount0 of None \<Rightarrow> False | Some a \<Rightarrow> a < 0);
          amount1 = (if negative then map_option abs amount0 else amount0);
          ttype = (if negative then ''withdrawal'' else ''deposit'');
          currencyId = safeString rt transaction ''Coin'';
          cur = safeValue (JObj (currencies_by_id ex)) (opt_string currencyId) JUndefined
      in bind_result
           (if cur \<noteq> JUndefined then member_of cur ''code''
            else Inr (opt_jsval (commonCurrencyCode ex currencyId)))
           (\<lambda>code.
              let label = safeString rt transaction ''Label'';
                  timestamp = parse8601 rt (safeString rt transaction ''TimeStamp'');
                  txid0 = safeString rt transaction ''TransactionId''
              in case label of
                   None \<Rightarrow> Inl (Raise TypeError ''Cannot read property split of undefined'')
                 | Some lbl \<Rightarrow>
                     (let labelParts = split lbl '';'';
                          three = (length labelParts = 3);
                          amount = (if three then JNum (parseFloat (labelParts ! 0)) else opt_num amount1);
                          address = (if three then labelParts ! 1 else lbl);
                          fee = (if three
                                 then JObj [(''currency'', code),
                                            (''cost'', JNum (parseFloat (labelParts ! 2)))]
                                 else JUndefined);
                          canceled = (txid0 = Some ''CANCELED'');
                          txid = (if canceled then None else txid0);
                          status = (if canceled then ''canceled'' else ''ok'')
                      in Inr (JObj
                           [(''info'', transaction),
                            (''timestamp'', opt_number timestamp),
                            (''datetime'', opt_jsval (iso8601 rt timestamp)),
                            (''id'', opt_jsval id),
                            (''currency'', code),
                            (''amount'', amount),
                            (''address'', JStr address),
                            (''tag'', JUndefined),
                            (''status'', JStr status),
                            (''type'', JStr ttype),
                            (''updated'', JUndefined),
                            (''txid'', opt_jsval txid),
                            (''fee'', fee)]))))"


fun own_keys :: "jsval \<Rightarrow> error + (string \<times> jsval) list" where
  "own_keys (JObj kvs) = Inr kvs"
| "own_keys (JArr xs) = Inr []"
| "own_keys v = Inl (Raise TypeError ''Cannot use the in operator on a value that is not an object'')"



section \<open>The methods of dx that take a symbol\<close>

text \<open>
  Each method is the sequence of the source: \<open>await this.loadMarkets ()\<close>, the resolution
  of the symbol, the request built and merged with \<open>params\<close>, the call of the endpoint
  (the base class derives \<open>publicPostAssetManagementGetTicker\<close> and its like from the
  \<open>api\<close> table: the api, the HTTP method and the path), and the parse of the response.
  \<open>loadMarkets\<close> fetches with the adapter's own \<open>fetchMarkets\<close> and no parameters.
\<close>

definition dx_loadMarkets :: "runtime \<Rightarrow> network \<Rightarrow> unit action" where
  "dx_loadMarkets rt net = loadMarkets rt (dx_fetchMarkets rt net (JObj []))"

definition dx_fetchTicker :: "runtime \<Rightarrow> network \<Rightarrow> string \<Rightarrow> (string \<times> jsval) list \<Rightarrow> jsval action" where
  "dx_fetchTicker rt net symbol params =
     bind (dx_loadMarkets rt net) (\<lambda>_.
     bind (market (Some symbol)) (\<lambda>m.
       let req = [(''instrumentIds'', JArr [get_prop m ''numericId'']),
                  (''currencyId'', get_prop m ''quoteNumericId'')]
       in bind (request net ''public'' ''post'' ''AssetManagement.GetTicker'' (JObj (extend req params)))
            (\<lambda>response.
          bind get_this (\<lambda>ex.
            lift (bind_result (member_of response ''result'') (\<lambda>result.
                  bind_result (member_of result ''tickers'') (\<lambda>tickers.
                  dx_parseTicker rt ex tickers m)))))))"

definition dx_fetchOHLCV ::
  "runtime \<Rightarrow> network \<Rightarrow> string \<Rightarrow> string \<Rightarrow> jsval \<Rightarrow> jsval \<Rightarrow> (string \<times> jsval) list \<Rightarrow> jsval action" where
  "dx_fetchOHLCV rt net symbol timeframe since limit params =
     bind (dx_loadMarkets rt net) (\<lambda>_.
     bind (market (Some symbol)) (\<lambda>m.
     bind get_this (\<lambda>ex.
       let req = [(''timestampFrom'', since),
                  (''timestampTill'', JUndefined),
                  (''instrumentId'', get_prop m ''numericId''),
                  (''type'', (case map_of (timeframes ex) timeframe of
                                Some t \<Rightarrow> JStr t | None \<Rightarrow> JUndefined)),
                  (''pagination'', JObj [(''limit'', limit), (''offset'', JNum (Num 0))])]
       in bind (request net ''public'' ''post'' ''AssetManagement.History'' (JObj (extend req params)))
            (\<lambda>response.
            lift (bind_result (member_of response ''result'') (\<lambda>result.
                  bind_result (member_of result ''assets'') (\<lambda>assets.
                  base_method rt ''parseOHLCVs'' [assets, m, JStr timeframe, since, limit])))))))"

text \<open>
  \<open>fetchOpenOrders\<close> and \<open>fetchClosedOrders\<close> differ in the endpoint and in the field of
  the result that holds the orders.
\<close>

definition dx_fetchOrdersFrom ::
  "runtime \<Rightarrow> network \<Rightarrow> string \<Rightarrow> string \<Rightarrow> string option \<Rightarrow> jsval \<Rightarrow> jsval \<Rightarrow> (string \<times> jsval) list
     \<Rightarrow> jsval action" where
  "dx_fetchOrdersFrom rt net path field symbol since limit params =
     bind (dx_loadMarkets rt net) (\<lambda>_.
     let req0 = [(''pagination'', JObj [(''limit'', limit), (''offset'', JNum (Num 0))])]
     in bind (case symbol of
                None \<Rightarrow> return (JUndefined, req0)
              | Some sname \<Rightarrow>
                  bind (market (Some sname)) (\<lambda>m.
                    return (m, req0 @ [(''instrumentId'', get_prop m ''numericId'')])))
          (\<lambda>(m, req).
        bind (request net ''private'' ''post'' path (JObj (extend req params))) (\<lambda>response.
          lift (bind_result (member_of response ''result'') (\<lambda>result.
                bind_result (member_of result field) (\<lambda>orders.
                base_method rt ''parseOrders'' [orders, m, since, limit]))))))"

definition dx_fetchOpenOrders ::
  "runtime \<Rightarrow> network \<Rightarrow> string option \<Rightarrow> jsval \<Rightarrow> jsval \<Rightarrow> (string \<times> jsval) list \<Rightarrow> jsval action" where
  "dx_fetchOpenOrders rt net symbol since limit params =
     dx_fetchOrdersFrom rt net ''OrderManagement.OpenOrders'' ''orders'' symbol since limit params"

definition dx_fetchClosedOrders ::
  "runtime \<Rightarrow> network \<Rightarrow> string option \<Rightarrow> jsval \<Rightarrow> jsval \<Rightarrow> (string \<times> jsval) list \<Rightarrow> jsval action" where
  "dx_fetchClosedOrders rt net symbol since limit params =
     dx_fetchOrdersFrom rt net ''OrderManagement.OrderHistory'' ''ordersForHistory'' symbol since limit params"

definition dx_fetchOrderBook ::
  "runtime \<Rightarrow> network \<Rightarrow> string \<Rightarrow> jsval \<Rightarrow> (string \<times> jsval) list \<Rightarrow> jsval action" where
  "dx_fetchOrderBook rt net symbol limit params =
     bind (dx_loadMarkets rt net) (\<lambda>_.
     bind (market (Some symbol)) (\<lambda>m.
       let req = [(''instrumentId'', get_prop m ''numericId'')]
       in bind (request net ''public'' ''post'' ''OrderManagement.GetOrderBook'' (JObj (extend req params)))
            (\<lambda>response.
          let orderbook = safeValue response ''result'' JUndefined
          in lift (base_method rt ''parseOrderBook''
                     [orderbook, JUndefined, JStr ''sell'', JStr ''buy'', JStr ''price'', JStr ''qty'']))))"

definition dx_createOrder ::
  "runtime \<Rightarrow> network \<Rightarrow> string \<Rightarrow> string \<Rightarrow> string \<Rightarrow> rat \<Rightarrow> rat option \<Rightarrow> (string \<times> jsval) list
     \<Rightarrow> jsval action" where
  "dx_createOrder rt net symbol otype side amount price params =
     bind (dx_loadMarkets rt net) (\<lambda>_.
     bind get_this (\<lambda>ex.
     let direction = safeInteger (get_prop (JObj (options ex)) ''orderSide'') side
     in bind (market (Some symbol)) (\<lambda>m.
        let order0 = [(''direction'', opt_num direction),
                      (''instrumentId'', get_prop m ''numericId''),
                      (''orderType'', get_prop (get_prop (JObj (options ex)) ''orderTypes'') otype),
                      (''quantity'', numberToObject amount)]
        in bind (if otype = ''limit'' then
                   (case price of
                      None \<Rightarrow> throw (Raise TypeError ''decimalToPrecision: not a finite number'')
                    | Some p \<Rightarrow> return (order0 @ [(''price'', numberToObject p)]))
                 else return order0)
             (\<lambda>order.
           bind (request net ''private'' ''post'' ''OrderManagement.Create''
                   (JObj (extend [(''order'', JObj order)] params))) (\<lambda>result.
             lift (bind_result (member_of result ''result'') (\<lambda>r.
                   bind_result (member_of r ''externalOrderId'') (\<lambda>id.
                   Inr (JObj [(''info'', result), (''id'', id)])))))))))"

section \<open>The methods of gemini that take a symbol or an address\<close>

definition gemini_loadMarkets :: "runtime \<Rightarrow> network \<Rightarrow> unit action" where
  "gemini_loadMarkets rt net = loadMarkets rt (gemini_fetchMarkets net (JObj []))"

definition gemini_fetchOrderBook ::
  "runtime \<Rightarrow> network \<Rightarrow> string \<Rightarrow> jsval \<Rightarrow> (string \<times> jsval) list \<Rightarrow> jsval action" where
  "gemini_fetchOrderBook rt net symbol limit params =
     bind (gemini_loadMarkets rt net) (\<lambda>_.
     bind (marketId (Some symbol)) (\<lambda>mid.
       let req0 = [(''symbol'', mid)];
           req = (if limit \<noteq> JUndefined
                  then req0 @ [(''limit_bids'', limit), (''limit_asks'', limit)] else req0)
       in bind (request net ''public'' ''get'' ''book/{symbol}'' (JObj (extend req params)))
            (\<lambda>response.
          lift (base_method rt ''parseOrderBook''
                  [response, JUndefined, JStr ''bids'', JStr ''asks'', JStr ''price'', JStr ''amount'']))))"

definition gemini_fetchTicker ::
  "runtime \<Rightarrow> network \<Rightarrow> string \<Rightarrow> (string \<times> jsval) list \<Rightarrow> jsval action" where
  "gemini_fetchTicker rt net symbol params =
     bind (gemini_loadMarkets rt net) (\<lambda>_.
     bind (market (Some symbol)) (\<lambda>m.
       let req = [(''symbol'', get_prop m ''id'')]
       in bind (request net ''public'' ''get'' ''pubticker/{symbol}'' (JObj (extend req params)))
            (\<lambda>ticker.
          lift (bind_result (member_of ticker ''volume'') (\<lambda>volume.
            let timestamp = safeInteger volume ''timestamp'';
                baseVolume = safeFloat m ''base'';
                quoteVolume = safeFloat m ''quote'';
                last = safeFloat ticker ''last''
            in Inr (JObj
                 [(''symbol'', JStr symbol),
                  (''timestamp'', opt_num timestamp),
                  (''datetime'', opt_jsval (iso8601 rt (map_option Num timestamp))),
                  (''high'', JUndefined),
                  (''low'', JUndefined),
                  (''bid'', opt_num (safeFloat ticker ''bid'')),
                  (''bidVolume'', JUndefined),
                  (''ask'', opt_num (safeFloat ticker ''ask'')),
                  (''askVolume'', JUndefined),
                  (''vwap'', JUndefined),
                  (''open'', JUndefined),
                  (''close'', opt_num last),
                  (''last'', opt_num last),
                  (''previousClose'', JUndefined),
                  (''change'', JUndefined),
                  (''percentage'', JUndefined),
                  (''average'', JUndefined),
                  (''baseVolume'', opt_num (safeFloat volume (js_string rt (opt_num baseVolume)))),
                  (''quoteVolume'', opt_num (safeFloat volume (js_string rt (opt_num quoteVolume)))),
                  (''info'', ticker)]))))))"

definition gemini_fetchTrades ::
  "runtime \<Rightarrow> network \<Rightarrow> string \<Rightarrow> jsval \<Rightarrow> jsval \<Rightarrow> (string \<times> jsval) list \<Rightarrow> jsval action" where
  "gemini_fetchTrades rt net symbol since limit params =
     bind (gemini_loadMarkets rt net) (\<lambda>_.
     bind (market (Some symbol)) (\<lambda>m.
       let req = [(''symbol'', get_prop m ''id'')]
       in bind (request net ''public'' ''get'' ''trades/{symbol}'' (JObj (extend req params)))
            (\<lambda>response.
          lift (base_method rt ''parseTrades'' [response, m, since, limit]))))"

definition gemini_fetchOpenOrders ::
  "runtime \<Rightarrow> network \<Rightarrow> string option \<Rightarrow> jsval \<Rightarrow> jsval \<Rightarrow> (string \<times> jsval) list \<Rightarrow> jsval action" where
  "gemini_fetchOpenOrders rt net symbol since limit params =
     bind (gemini_loadMarkets rt net) (\<lambda>_.
     bind (request net ''private'' ''post'' ''orders'' (JObj params)) (\<lambda>response.
     bind (lift (base_method rt ''parseOrders'' [response, JUndefined, since, limit])) (\<lambda>orders.
       case symbol of
         None \<Rightarrow> return orders
       | Some sname \<Rightarrow>
           bind (market (Some sname)) (\<lambda>m.
             lift (base_method rt ''filterBySymbol'' [orders, get_prop m ''symbol''])))))"

text \<open>
  \<open>createOrder\<close>: \<open>this.nonce ()\<close> is the clock (\<open>now\<close>); \<open>price.toString ()\<close> raises
  when no price is given.
\<close>

definition gemini_createOrder ::
  "runtime \<Rightarrow> network \<Rightarrow> rat \<Rightarrow> string \<Rightarrow> string \<Rightarrow> string \<Rightarrow> rat \<Rightarrow> rat option
     \<Rightarrow> (string \<times> jsval) list \<Rightarrow> jsval action" where
  "gemini_createOrder rt net now symbol otype side amount price params =
     bind (gemini_loadMarkets rt net) (\<lambda>_.
     bind get_this (\<lambda>ex.
       if otype = ''market'' then throw (Raise ExchangeError (ex_id ex @ '' allows limit orders only''))
       else
         bind (marketId (Some symbol)) (\<lambda>mid.
           case price of
             None \<Rightarrow> throw (Raise TypeError ''Cannot read property toString of undefined'')
           | Some p \<Rightarrow>
               (let req = [(''client_order_id'', JStr (numberToString rt (Num now))),
                           (''symbol'', mid),
                           (''amount'', JStr (numberToString rt (Num amount))),
                           (''price'', JStr (numberToString rt (Num p))),
                           (''side'', JStr side),
                           (''type'', JStr ''exchange limit'')]
                in bind (request net ''private'' ''post'' ''order/new'' (JObj (extend req params)))
                     (\<lambda>response.
                   lift (bind_result (member_of response ''order_id'') (\<lambda>id.
                         Inr (JObj [(''info'', response), (''id'', id)]))))))))"

definition gemini_fetchMyTrades ::
  "runtime \<Rightarrow> network \<Rightarrow> string option \<Rightarrow> rat option \<Rightarrow> jsval \<Rightarrow> (string \<times> jsval) list \<Rightarrow> jsval action" where
  "gemini_fetchMyTrades rt net symbol since limit params =
     bind get_this (\<lambda>ex.
       case symbol of
         None \<Rightarrow> throw (Raise ArgumentsRequired (ex_id ex @ '' fetchMyTrades requires a symbol argument''))
       | Some sname \<Rightarrow>
           bind (gemini_loadMarkets rt net) (\<lambda>_.
           bind (market (Some sname)) (\<lambda>m.
             let req0 = [(''symbol'', get_prop m ''id'')];
                 req1 = (if limit \<noteq> JUndefined then req0 @ [(''limit_trades'', limit)] else req0);
                 req = (case since of
                          None \<Rightarrow> req1
                        | Some t \<Rightarrow>
                            req1 @ [(''timestamp'',
                              JNum (Num (if 0 \<le> t then of_int \<lfloor>t / 1000\<rfloor> else of_int \<lceil>t / 1000\<rceil>)))])
             in bind (request net ''private'' ''post'' ''mytrades'' (JObj (extend req params)))
                  (\<lambda>response.
                lift (base_method rt ''parseTrades'' [response, m, opt_num since, limit])))))"

definition gemini_withdraw ::
  "runtime \<Rightarrow> network \<Rightarrow> (string option \<Rightarrow> bool) \<Rightarrow> string \<Rightarrow> rat \<Rightarrow> string option \<Rightarrow> jsval
     \<Rightarrow> (string \<times> jsval) list \<Rightarrow> jsval action" where
  "gemini_withdraw rt net valid code amount address tag params =
     bind (checkAddress valid address) (\<lambda>_.
     bind (gemini_loadMarkets rt net) (\<lambda>_.
     bind (currency code) (\<lambda>c.
       let req = [(''currency'', get_prop c ''id''),
                  (''amount'', JNum (Num amount)),
                  (''address'', opt_jsval address)]
       in bind (request net ''private'' ''post'' ''withdraw/{currency}'' (JObj (extend req params)))
            (\<lambda>response.
          return (JObj [(''info'', response), (''id'', opt_jsval (safeString rt response ''txHash''))])))))"

section \<open>The methods of bleutrade that take a symbol\<close>

text \<open>
  bleutrade inherits \<open>fetchMarkets\<close> from bittrex, which is not among the sources: the
  loader is a parameter \<open>fm\<close> of its methods.
\<close>

definition bleutrade_fetchOrders ::
  "runtime \<Rightarrow> network \<Rightarrow> jsval list action \<Rightarrow> string option \<Rightarrow> jsval \<Rightarrow> jsval \<Rightarrow> (string \<times> jsval) list
     \<Rightarrow> jsval action" where
  "bleutrade_fetchOrders rt net fm symbol since limit params =
     bind (loadMarkets rt fm) (\<lambda>_.
     bind (case symbol of None \<Rightarrow> return JUndefined | Some sname \<Rightarrow> market (Some sname)) (\<lambda>m.
       let req = [(''market'', JStr ''ALL''), (''orderstatus'', JStr ''ALL'')]
       in bind (request net ''account'' ''get'' ''orders'' (JObj (extend req params))) (\<lambda>response.
          lift (bind_result (member_of response ''result'') (\<lambda>result.
                base_method rt ''parseOrders'' [result, m, since, limit])))))"

definition bleutrade_fetchClosedOrders ::
  "runtime \<Rightarrow> network \<Rightarrow> jsval list action \<Rightarrow> string option \<Rightarrow> jsval \<Rightarrow> jsval \<Rightarrow> (string \<times> jsval) list
     \<Rightarrow> jsval action" where
  "bleutrade_fetchClosedOrders rt net fm symbol since limit params =
     bind (bleutrade_fetchOrders rt net fm symbol since limit params) (\<lambda>response.
       lift (base_method rt ''filterBy'' [response, JStr ''status'', JStr ''closed'']))"

definition bleutrade_fetchOrderBook ::
  "runtime \<Rightarrow> network \<Rightarrow> jsval list action \<Rightarrow> string \<Rightarrow> jsval \<Rightarrow> (string \<times> jsval) list \<Rightarrow> jsval action" where
  "bleutrade_fetchOrderBook rt net fm symbol limit params =
     bind (loadMarkets rt fm) (\<lambda>_.
     bind (marketId (Some symbol)) (\<lambda>mid.
       let req0 = [(''market'', mid), (''type'', JStr ''ALL'')];
           req = (if limit \<noteq> JUndefined then req0 @ [(''depth'', limit)] else req0)
       in bind (request net ''public'' ''get'' ''orderbook'' (JObj (extend req params))) (\<lambda>response.
          bind get_this (\<lambda>ex.
            let orderbook = safeValue response ''result'' JUndefined
            in if \<not> truthy orderbook then
                 throw (Raise ExchangeError
                   (ex_id ex @ '' publicGetOrderbook() returneded no result '' @ json rt response))
               else lift (base_method rt ''parseOrderBook''
                      [orderbook, JUndefined, JStr ''buy'', JStr ''sell'', JStr ''Rate'', JStr ''Quantity''])))))"

definition bleutrade_fetchOHLCV ::
  "runtime \<Rightarrow> network \<Rightarrow> jsval list action \<Rightarrow> string \<Rightarrow> string \<Rightarrow> jsval \<Rightarrow> jsval \<Rightarrow> (string \<times> jsval) list
     \<Rightarrow> jsval action" where
  "bleutrade_fetchOHLCV rt net fm symbol timeframe since limit params =
     bind (loadMarkets rt fm) (\<lambda>_.
     bind (market (Some symbol)) (\<lambda>m.
     bind get_this (\<lambda>ex.
       let req = [(''period'', (case map_of (timeframes ex) timeframe of
                                  Some t \<Rightarrow> JStr t | None \<Rightarrow> JUndefined)),
                  (''market'', get_prop m ''id''),
                  (''count'', limit)]
       in bind (request net ''public'' ''get'' ''candles'' (JObj (extend req params))) (\<lambda>response.
          bind (lift (own_keys response)) (\<lambda>fields.
            if has_key ''result'' fields \<and> truthy (get_prop response ''result'')
            then lift (base_method rt ''parseOHLCVs''
                   [get_prop response ''result'', m, JStr timeframe, since, limit])
            else return JUndefined)))))"

section \<open>Balances\<close>










section \<open>Properties of actions\<close>

text \<open>
  \<open>emits P m\<close>: whatever \<open>m\<close> returns or raises, it only appends events to the trace, and
  each of them satisfies \<open>P\<close>. \<open>steady I P m\<close>: on an exchange object that satisfies \<open>I\<close>,
  \<open>m\<close> does so and leaves the exchange object as it is.
\<close>

definition emits :: "(event \<Rightarrow> bool) \<Rightarrow> 'a action \<Rightarrow> bool" where
  "emits P m = (\<forall>s r s'. m s = (r, s') \<longrightarrow> (\<exists>t. trace s' = trace s @ t \<and> list_all P t))"

definition steady :: "(exchange \<Rightarrow> bool) \<Rightarrow> (event \<Rightarrow> bool) \<Rightarrow> 'a action \<Rightarrow> bool" where
  "steady I P m =
     (\<forall>s r s'. I (self s) \<and> m s = (r, s') \<longrightarrow>
        self s' = self s \<and> (\<exists>t. trace s' = trace s @ t \<and> list_all P t))"

text \<open>\<open>knows sy ex\<close>: the market cache of \<open>ex\<close> is populated and has the symbol \<open>sy\<close>.\<close>

definition knows :: "string \<Rightarrow> exchange \<Rightarrow> bool" where
  "knows sy ex = (case markets ex of None \<Rightarrow> False | Some ms \<Rightarrow> has_key sy ms)"

text \<open>The request that places an order on gemini.\<close>

definition is_order_request :: "event \<Rightarrow> bool" where
  "is_order_request e = (case e of Request api method path p \<Rightarrow> api = ''private'' \<and> path = ''order/new'' | _ \<Rightarrow> False)"

fun request_payload :: "event \<Rightarrow> jsval" where
  "request_payload (Request api method path p) = p"
| "request_payload e = JUndefined"

text \<open>
  The two properties of a method that takes a symbol, read on the events the method adds to
  the trace of the session it runs on (\<open>emitted\<close>). \<open>loads_first\<close>: the method does
  something, and the first thing it does is the call of \<open>loadMarkets\<close>, before any
  resolution of a symbol and any request of its own. \<open>symbol_known\<close>: the symbol is valid
  for the exchange, that is, it is in the market cache or, when the cache is empty, among
  the markets the loader \<open>fm\<close> fetches. \<open>cache_first rt fm sy m s\<close>: run on the session
  \<open>s\<close>, the method \<open>m\<close> calls \<open>loadMarkets\<close> first, and when \<open>sy\<close> is valid no resolution
  of \<open>sy\<close> fails.
\<close>

fun loads_first :: "event list \<Rightarrow> bool" where
  "loads_first (LoadMarkets # t) = True"
| "loads_first t = False"

fun is_request :: "event \<Rightarrow> bool" where
  "is_request (Request api method path p) = True"
| "is_request e = False"

definition symbol_known :: "runtime \<Rightarrow> jsval list action \<Rightarrow> session \<Rightarrow> string \<Rightarrow> bool" where
  "symbol_known rt fm s sy =
     (case markets (self s) of
        Some ms \<Rightarrow> has_key sy ms
      | None \<Rightarrow>
          (case fm (s\<lparr>trace := trace s @ [LoadMarkets]\<rparr>) of
             (Inr ms, s') \<Rightarrow> has_key sy (index_by rt ''symbol'' ms)
           | (Inl e, s') \<Rightarrow> False))"

definition emitted :: "'a action \<Rightarrow> session \<Rightarrow> event list" where
  "emitted m s = drop (length (trace s)) (trace (snd (m s)))"

definition cache_first :: "runtime \<Rightarrow> jsval list action \<Rightarrow> string \<Rightarrow> 'a action \<Rightarrow> session \<Rightarrow> bool" where
  "cache_first rt fm sy m s =
     (loads_first (emitted m s)
      \<and> (symbol_known rt fm s sy \<longrightarrow> ResolveSymbol (Some sy) False \<notin> set (emitted m s)))"

text \<open>
  \<open>symbol_scoped sy m\<close>: the action \<open>m\<close> leaves the exchange object as it is, and on an
  exchange object whose cache has \<open>sy\<close> no resolution of \<open>sy\<close> fails in it.
\<close>

definition symbol_scoped :: "string \<Rightarrow> 'a action \<Rightarrow> bool" where
  "symbol_scoped sy m =
     (steady (\<lambda>ex. True) (\<lambda>e. True) m
      \<and> steady (knows sy) (\<lambda>e. e \<noteq> ResolveSymbol (Some sy) False) m)"



section \<open>Example inputs\<close>

text \<open>An error response of gemini whose reason and message are in no table.\<close>

definition gemini_unmapped_error :: jsval where
  "gemini_unmapped_error =
     JObj [(''result'', JStr ''error''), (''reason'', JStr ''Bad''), (''message'', JStr ''boom'')]"

text \<open>
  An exchange that answers dx with one instrument, the symbols request of gemini with one
  id, and the request for gemini's documentation with a page whose table of symbols and
  minimums has one row; it rejects every other request.
\<close>

definition dx_instrument :: jsval where
  "dx_instrument =
     JObj [(''id'', JNum (Num 1001)), (''meQuantityMultiplier'', JNum (Num 0)),
           (''asset'', JObj [(''fullName'', JStr ''BCH/USD''),
                             (''baseCurrencyId'', JNum (Num 3)),
                             (''quotedCurrencyId'', JNum (Num 1)),
                             (''tailDigits'', JNum (Num 2))])]"

definition gemini_row :: string where
  "gemini_row =
     ''<td><code class='' @ [CHR 0x22] @ ''prettyprint'' @ [CHR 0x22] @ ''>btcusd</code></td>'' @ [CHR 0x0A]
     @ ''<td>USD</td>'' @ [CHR 0x0A]
     @ ''<td>BTC</td>'' @ [CHR 0x0A]
     @ ''<td>0.00001 BTC (1e-5)</td>'' @ [CHR 0x0A]
     @ ''<td>0.00000001 BTC (1e-8)</td>'' @ [CHR 0x0A]
     @ ''<td>0.01 USD</td>'' @ [CHR 0x0A]
     @ ''</tr>'' @ [CHR 0x0A] @ ''</''"

definition gemini_page :: string where
  "gemini_page =
     ''<h1 id='' @ [CHR 0x22] @ ''symbols-and-minimums'' @ [CHR 0x22] @ ''>Symbols and minimums</h1>''
     @ ''<table><tbody><tr>'' @ [CHR 0x0A] @ gemini_row @ ''tbody></table>''"

definition example_net :: network where
  "example_net api method path params =
     (if path = ''AssetManagement.GetInstruments''
      then Inr (JObj [(''result'', JObj [(''instruments'', JArr [dx_instrument])])])
      else if path = ''symbols'' then Inr (JArr [JStr ''btcusd''])
      else if path = ''rest-api'' then Inr (JStr gemini_page)
      else Inl (Raise ExchangeNotAvailable ''no such endpoint''))"

definition fresh :: "exchange \<Rightarrow> session" where
  "fresh ex = \<lparr> self = ex, trace = [] \<rparr>"

text \<open>The markets the three loaders build from these answers.\<close>

definition dx_example_market :: jsval where
  "dx_example_market =
     JObj [(''id'', JStr ''1001''), (''numericId'', JNum (Num 1001)),
           (''symbol'', JStr ''Bitcoin Cash/USD''),
           (''base'', JStr ''Bitcoin Cash''), (''quote'', JStr ''USD''),
           (''baseId'', JStr ''3''), (''quoteId'', JStr ''1''),
           (''baseNumericId'', JNum (Num 3)), (''quoteNumericId'', JNum (Num 1)),
           (''info'', dx_instrument),
           (''precision'', JObj [(''amount'', JNum (Num 0)), (''price'', JNum (Num 2))]),
           (''limits'', JObj
              [(''amount'', JObj [(''min'', JUndefined), (''max'', JUndefined)]),
               (''price'', JObj [(''min'', JNum (Num 0)), (''max'', JUndefined)]),
               (''cost'', JObj [(''min'', JNum (Num 0)), (''max'', JUndefined)])])]"

definition gemini_api_market :: jsval where
  "gemini_api_market =
     JObj [(''id'', JStr ''btcusd''), (''info'', JStr ''btcusd''),
           (''symbol'', JStr ''BTC/USD''), (''base'', JStr ''BTC''), (''quote'', JStr ''USD''),
           (''baseId'', JStr ''btc''), (''quoteId'', JStr ''usd''),
           (''precision'', JObj [(''amount'', JUndefined), (''price'', JUndefined)]),
           (''limits'', JObj
              [(''amount'', JObj [(''min'', JUndefined), (''max'', JUndefined)]),
               (''price'', JObj [(''min'', JUndefined), (''max'', JUndefined)]),
               (''cost'', JObj [(''min'', JUndefined), (''max'', JUndefined)])])]"

definition gemini_web_market :: jsval where
  "gemini_web_market =
     JObj [(''id'', JStr ''btcusd''), (''info'', JStr gemini_row),
           (''symbol'', JStr ''BTC/USD''), (''base'', JStr ''BTC''), (''quote'', JStr ''USD''),
           (''baseId'', JStr ''btc''), (''quoteId'', JStr ''usd''), (''active'', JUndefined),
           (''precision'', JObj [(''amount'', JNum (Num 8)), (''price'', JNum (Num 2))]),
           (''limits'', JObj
              [(''amount'', JObj [(''min'', JNum (Num (1 / 100000))), (''max'', JUndefined)]),
               (''price'', JObj [(''min'', JUndefined), (''max'', JUndefined)]),
               (''cost'', JObj [(''min'', JUndefined), (''max'', JUndefined)])])]"

text \<open>A gemini session whose market cache holds the market \<open>BTC/USD\<close>.\<close>

definition gemini_loaded :: session where
  "gemini_loaded =
     \<lparr> self = gemini
         \<lparr> markets := Some [(''BTC/USD'', gemini_api_market)],
           markets_by_id := [(''btcusd'', gemini_api_market)] \<rparr>,
       trace = [] \<rparr>"

text \<open>
  dx with a stored access token that expires at time 1000; dx with the example market
  in its cache.
\<close>

definition dx_signed_in :: exchange where
  "dx_signed_in =
     dx\<lparr>options := options dx @ [(''expires'', JNum (Num 1000)), (''accessToken'', JStr ''token'')]\<rparr>"

definition dx_loaded :: exchange where
  "dx_loaded =
     dx\<lparr>markets := Some [(''Bitcoin Cash/USD'', dx_example_market)],
        markets_by_id := [(''1001'', dx_example_market)]\<rparr>"

text \<open>A ticker response of dx with no \<open>time\<close> field.\<close>

definition dx_tickers_without_time :: jsval where
  "dx_tickers_without_time = JObj [(''1001'', JObj [(''last'', JStr ''5'')])]"

text \<open>A bleutrade transaction whose label has three parts, the first one negative.\<close>

definition bleutrade_negative_label :: jsval where
  "bleutrade_negative_label =
     JObj [(''Id'', JStr ''7''), (''Coin'', JStr ''BTC''), (''Amount'', JStr ''1''),
           (''Label'', JStr ''-5;addr;0''), (''TransactionId'', JStr ''CANCELED'')]"





text \<open>
  A market of bleutrade, and a loader that yields it without a request, in place of the
  \<open>fetchMarkets\<close> that bleutrade inherits from bittrex.
\<close>

definition bleutrade_example_market :: jsval where
  "bleutrade_example_market =
     JObj [(''id'', JStr ''EPC_BTC''), (''symbol'', JStr ''Epacoin/BTC''),
           (''base'', JStr ''Epacoin''), (''quote'', JStr ''BTC''),
           (''baseId'', JStr ''EPC''), (''quoteId'', JStr ''BTC'')]"

definition bleutrade_loader :: "jsval list action" where
  "bleutrade_loader = return [bleutrade_example_market]"









section \<open>Verified properties\<close>

subsection \<open>Error dispatch\<close>

lemma findBroadlyMatchedKey_string:
  "findBroadlyMatchedKey tbl (JStr s) = Inr (map_option fst (broad_match tbl s))"
  by (induction tbl) (auto simp: broad_match_def)

lemma broad_match_occurs:
  "broad_match tbl s = Some (key, k) \<Longrightarrow> occurs_in key s"
  by (induction tbl) (auto simp: broad_match_def split: if_splits)

lemma broad_match_map_of:
  "broad_match tbl s = Some (key, k) \<Longrightarrow> map_of tbl key = Some k"
proof (induction tbl)
  case Nil
  then show ?case by (simp add: broad_match_def)
next
  case (Cons a tbl)
  obtain key' k' where a: "a = (key', k')" by (cases a)
  show ?case
  proof (cases "occurs_in key' s")
    case True
    with Cons.prems a show ?thesis by (simp add: broad_match_def)
  next
    case False
    with Cons.prems a have r: "broad_match tbl s = Some (key, k)" by (simp add: broad_match_def)
    then have "occurs_in key s" by (rule broad_match_occurs)
    with False have "key' \<noteq> key" by auto
    with Cons.IH [OF r] a show ?thesis by simp
  qed
qed

text \<open>
  C2, as the code has it. A dx response whose \<open>error\<close> field is a non-empty string \<open>s\<close>
  raises the kind \<open>s\<close> maps to (exact table by equality, then the first broad key occurring
  in \<open>s\<close>, then \<open>ExchangeError\<close>), with the message \<open>id + ' ' + json (response)\<close>. A gemini
  response whose \<open>result\<close> is \<open>'error'\<close>, with reason \<open>r\<close> and message \<open>m\<close>, raises the kind
  \<open>r\<close> maps to in the exact table, else the kind \<open>m\<close> maps to (exact, then broad, then
  \<open>ExchangeError\<close>), with the message \<open>id + ' ' + m\<close>: the message text, not the payload.
\<close>

theorem handleErrors_dispatch:
  "(member_of response ''error'' = Inr (JStr s) \<and> s \<noteq> [] \<and> truthy response \<longrightarrow>
      dx_handleErrors rt this response =
        Inl (Raise (mapped_kind this s) (ex_id this @ '' '' @ json rt response)))
   \<and> (response \<noteq> JUndefined \<and> safeString rt response ''result'' = Some ''error''
        \<and> safeString rt response ''reason'' = Some r
        \<and> safeString rt response ''message'' = Some m \<longrightarrow>
      gemini_handleErrors rt this response =
        Inl (Raise (case map_of (exact this) r of Some k \<Rightarrow> k | None \<Rightarrow> mapped_kind this m)
               (ex_id this @ '' '' @ m)))"
proof (intro conjI impI)
  assume a: "member_of response ''error'' = Inr (JStr s) \<and> s \<noteq> [] \<and> truthy response"
  show "dx_handleErrors rt this response =
        Inl (Raise (mapped_kind this s) (ex_id this @ '' '' @ json rt response))"
  proof (cases "map_of (exact this) s")
    case (Some k)
    with a show ?thesis by (simp add: dx_handleErrors_def mapped_kind_def)
  next
    case None
    show ?thesis
    proof (cases "broad_match (broad this) s")
      case nb: None
      with a None show ?thesis
        by (simp add: dx_handleErrors_def mapped_kind_def findBroadlyMatchedKey_string)
    next
      case (Some kk)
      obtain key k where kk: "kk = (key, k)" by (cases kk)
      from Some kk have "map_of (broad this) key = Some k" by (simp add: broad_match_map_of)
      with a None Some kk show ?thesis
        by (simp add: dx_handleErrors_def mapped_kind_def findBroadlyMatchedKey_string)
    qed
  qed
next
  assume a: "response \<noteq> JUndefined \<and> safeString rt response ''result'' = Some ''error''
        \<and> safeString rt response ''reason'' = Some r
        \<and> safeString rt response ''message'' = Some m"
  show "gemini_handleErrors rt this response =
        Inl (Raise (case map_of (exact this) r of Some k \<Rightarrow> k | None \<Rightarrow> mapped_kind this m)
               (ex_id this @ '' '' @ m))"
  proof (cases "map_of (exact this) r")
    case (Some k)
    with a show ?thesis by (simp add: gemini_handleErrors_def)
  next
    case nr: None
    show ?thesis
    proof (cases "map_of (exact this) m")
      case (Some k)
      with a nr show ?thesis by (simp add: gemini_handleErrors_def mapped_kind_def)
    next
      case None
      show ?thesis
      proof (cases "broad_match (broad this) m")
        case nb: None
        with a nr None show ?thesis
          by (simp add: gemini_handleErrors_def mapped_kind_def findBroadlyMatchedKey_string)
      next
        case (Some kk)
        obtain key k where kk: "kk = (key, k)" by (cases kk)
        from Some kk have "map_of (broad this) key = Some k" by (simp add: broad_match_map_of)
        with a nr None Some kk show ?thesis
          by (simp add: gemini_handleErrors_def mapped_kind_def findBroadlyMatchedKey_string)
      qed
    qed
  qed
qed

text \<open>
  The theorem at two responses: dx answering \<open>{"error": "the request timed out"}\<close> (a broad
  match) and gemini answering with the reason \<open>InvalidNonce\<close> (an exact match).
\<close>

theorem handleErrors_dispatch_witness:
  "dx_handleErrors example_runtime dx (JObj [(''error'', JStr ''the request timed out'')]) =
     Inl (Raise RequestTimeout
       (''dx '' @ json example_runtime (JObj [(''error'', JStr ''the request timed out'')])))
   \<and> gemini_handleErrors example_runtime gemini
       (JObj [(''result'', JStr ''error''), (''reason'', JStr ''InvalidNonce''),
              (''message'', JStr ''nonce too small'')]) =
     Inl (Raise InvalidNonce ''gemini nonce too small'')"
  using handleErrors_dispatch [where response = "JObj [(''error'', JStr ''the request timed out'')]"
      and s = "''the request timed out''" and rt = example_runtime and this = dx]
    handleErrors_dispatch [where response = "JObj [(''result'', JStr ''error''),
      (''reason'', JStr ''InvalidNonce''), (''message'', JStr ''nonce too small'')]"
      and rt = example_runtime and r = "''InvalidNonce''" and m = "''nonce too small''"
      and this = gemini]
  by (simp add: mapped_kind_def broad_match_def dx_def dx_exact_def dx_broad_def
      gemini_def gemini_exact_def safeString_def)

text \<open>
  C2 as stated fails on gemini: for an error response that no table maps, the generic
  \<open>ExchangeError\<close> carries \<open>gemini boom\<close>, the id and the message field, and the serialized
  response does not occur in it.
\<close>

theorem handleErrors_payload_counterexample:
  "map_of (exact gemini) ''Bad'' = None \<and> map_of (exact gemini) ''boom'' = None
   \<and> broad gemini = []
   \<and> gemini_handleErrors example_runtime gemini gemini_unmapped_error =
       Inl (Raise ExchangeError ''gemini boom'')
   \<and> \<not> occurs_in (json example_runtime gemini_unmapped_error) ''gemini boom''"
  by (simp add: gemini_handleErrors_def gemini_def gemini_exact_def safeString_def
      gemini_unmapped_error_def example_runtime_def)

subsection \<open>Evaluation of concrete runs\<close>

lemma floor_rat_div_numeral:
  "\<lfloor>(numeral a :: rat) / numeral b\<rfloor> = numeral a div numeral b"
  using floor_divide_of_int_eq [of "numeral a" "numeral b", where ?'a = rat] by simp

lemma floor_rat_div_neg_numeral:
  "\<lfloor>- (numeral a :: rat) / numeral b\<rfloor> = - numeral a div numeral b"
  using floor_divide_of_int_eq [of "- numeral a" "numeral b", where ?'a = rat] by simp

lemma show_nat_numeral:
  "show_nat (numeral k) =
     (if (numeral k :: nat) < 10 then [digit_char (numeral k)]
      else show_nat (numeral k div 10) @ [digit_char (numeral k mod 10)])"
  by (rule show_nat.simps)

lemma show_nat_0: "show_nat 0 = ''0''"
  by (simp add: show_nat.simps digit_char_def decimal_digits_def)

lemma show_nat_1: "show_nat 1 = ''1''"
  by (simp add: show_nat.simps digit_char_def decimal_digits_def)

lemma show_nat_Suc_0: "show_nat (Suc 0) = ''1''"
  by (simp add: show_nat.simps digit_char_def decimal_digits_def)

lemmas number_eval = decimalToPrecision_def round_half_away_def strip_zeros_def pad_left_def
  digit_char_def decimal_digits_def floor_rat_div_numeral floor_rat_div_neg_numeral
  show_nat_numeral show_nat_0 show_nat_1 show_nat_Suc_0 Let_def

lemmas action_eval = bind_def return_def throw_def lift_def get_this_def log_event_def
  request_def bind_result_def fresh_def

lemmas safe_eval = safeString_def safeInteger_def safeFloat_def safeValue_def parseInt_def
  parseFloat_def is_digit_def is_space_def nat_of_digits_def digit_val_def read_exponent_def
  pow10_def decimal_digits_def
subsection \<open>Market symbols\<close>

lemma map_result_Inr:
  "map_result f xs = Inr ys \<Longrightarrow> y \<in> set ys \<Longrightarrow> \<exists>x\<in>set xs. f x = Inr y"
  by (induction xs arbitrary: ys) (auto split: sum.splits)

lemma js_string_opt_jsval: "js_string rt (opt_jsval x) = opt_string x"
  by (cases x) auto

lemma dx_market_symbol:
  assumes "dx_market rt ex instrument = Inr m"
  shows "\<exists>name. safeString rt (safeValue (get_prop m ''info'') ''asset'' (JObj [])) ''fullName'' = Some name
      \<and> symbol_from_codes rt ex m (at_index (split name ''/'') 0) (at_index (split name ''/'') 1)"
  using assms
  by (auto simp: dx_market_def symbol_from_codes_def bind_result_def Let_def js_string_opt_jsval
      split: option.splits sum.splits)

lemma gemini_market_from_id_symbol:
  assumes "gemini_market_from_id ex v = Inr m"
  shows "\<exists>ident. get_prop m ''info'' = JStr ident
      \<and> symbol_from_codes rt ex m (Some (toUpperCase (take 3 ident)))
           (Some (toUpperCase (take 3 (drop 3 ident))))"
  using assms
  by (auto simp: gemini_market_from_id_def symbol_from_codes_def Let_def js_string_opt_jsval
      split: jsval.splits)

lemma gemini_market_from_row_symbol:
  assumes "gemini_market_from_row ex err row = Inr m"
  shows "\<exists>row. get_prop m ''info'' = JStr row
      \<and> symbol_from_codes rt ex m
           (Some (replace_first ''<td>'' [] (split row (''</td>'' @ [CHR 0x0A]) ! 2)))
           (Some (replace_first ''<td>'' [] (split row (''</td>'' @ [CHR 0x0A]) ! 1)))"
  using assms
  by (auto simp: gemini_market_from_row_def symbol_from_codes_def Let_def js_string_opt_jsval
      split: if_splits)

lemma dx_fetchMarkets_result:
  assumes "dx_fetchMarkets rt net params s = (Inr ms, s')" and "m \<in> set ms"
  shows "\<exists>x. dx_market rt (self s) x = Inr m"
  using assms
  by (auto simp: dx_fetchMarkets_def bind_def request_def log_event_def lift_def get_this_def
      bind_result_def split: sum.splits dest: map_result_Inr)

lemma gemini_fetchMarketsFromAPI_result:
  assumes "gemini_fetchMarketsFromAPI net params s = (Inr ms, s')" and "m \<in> set ms"
  shows "\<exists>x. gemini_market_from_id (self s) x = Inr m"
  using assms
  by (auto simp: gemini_fetchMarketsFromAPI_def bind_def request_def log_event_def lift_def
      get_this_def bind_result_def split: sum.splits dest: map_result_Inr)

lemma gemini_markets_of_page_result:
  assumes "gemini_markets_of_page ex response = Inr ms" and "m \<in> set ms"
  shows "\<exists>row. gemini_market_from_row ex (gemini_markup_error ex) row = Inr m"
proof -
  from assms(1) obtain rows where
    "map_result (gemini_market_from_row ex (gemini_markup_error ex)) rows = Inr ms"
    by (auto simp: gemini_markets_of_page_def Let_def split: jsval.splits if_splits)
  from map_result_Inr [OF this assms(2)] show ?thesis by blast
qed

lemma gemini_fetchMarketsFromWeb_result:
  assumes "gemini_fetchMarketsFromWeb net symbols params s = (Inr ms, s')" and "m \<in> set ms"
  shows "\<exists>row. gemini_market_from_row (self s) (gemini_markup_error (self s)) row = Inr m"
proof -
  from assms(1) obtain response where "gemini_markets_of_page (self s) response = Inr ms"
    by (auto simp: gemini_fetchMarketsFromWeb_def bind_def request_def
      log_event_def lift_def get_this_def split: sum.splits)
  from gemini_markets_of_page_result [OF this assms(2)] show ?thesis .
qed

text \<open>
  C3. Every market the loaders return has \<open>symbol = base + '/' + quote\<close>, with base and
  quote the common currency codes of the exchange-native codes: for dx the two parts of
  the instrument's \<open>asset.fullName\<close>, for gemini's API loader the upper-cased halves of the
  id, for gemini's web loader the third and second cell of the row; bleutrade's
  \<open>parseSymbol\<close> returns that string for the two parts of the id.
\<close>

theorem market_symbols:
  "(dx_fetchMarkets rt net params s = (Inr ms, s') \<and> m \<in> set ms \<longrightarrow>
      (\<exists>name. safeString rt (safeValue (get_prop m ''info'') ''asset'' (JObj [])) ''fullName'' = Some name
         \<and> symbol_from_codes rt (self s) m
             (at_index (split name ''/'') 0) (at_index (split name ''/'') 1)))
   \<and> (gemini_fetchMarketsFromAPI net params s = (Inr ms, s') \<and> m \<in> set ms \<longrightarrow>
      (\<exists>ident. get_prop m ''info'' = JStr ident
         \<and> symbol_from_codes rt (self s) m
             (Some (toUpperCase (take 3 ident))) (Some (toUpperCase (take 3 (drop 3 ident))))))
   \<and> (gemini_fetchMarketsFromWeb net symbols params s = (Inr ms, s') \<and> m \<in> set ms \<longrightarrow>
      (\<exists>row. get_prop m ''info'' = JStr row
         \<and> symbol_from_codes rt (self s) m
             (Some (replace_first ''<td>'' [] (split row (''</td>'' @ [CHR 0x0A]) ! 2)))
             (Some (replace_first ''<td>'' [] (split row (''</td>'' @ [CHR 0x0A]) ! 1)))))
   \<and> (map_of (options ex) ''symbolSeparator'' = Some (JStr sep) \<longrightarrow>
      bleutrade_parseSymbol ex ident =
        opt_string (commonCurrencyCode ex (at_index (split ident sep) 0)) @ ''/''
        @ opt_string (commonCurrencyCode ex (at_index (split ident sep) 1)))"
proof (intro conjI impI)
  assume "dx_fetchMarkets rt net params s = (Inr ms, s') \<and> m \<in> set ms"
  then obtain x where "dx_market rt (self s) x = Inr m"
    using dx_fetchMarkets_result by blast
  then show "\<exists>name. safeString rt (safeValue (get_prop m ''info'') ''asset'' (JObj [])) ''fullName'' = Some name
         \<and> symbol_from_codes rt (self s) m
             (at_index (split name ''/'') 0) (at_index (split name ''/'') 1)"
    by (rule dx_market_symbol)
next
  assume "gemini_fetchMarketsFromAPI net params s = (Inr ms, s') \<and> m \<in> set ms"
  then obtain x where "gemini_market_from_id (self s) x = Inr m"
    using gemini_fetchMarketsFromAPI_result by blast
  then show "\<exists>ident. get_prop m ''info'' = JStr ident
         \<and> symbol_from_codes rt (self s) m
             (Some (toUpperCase (take 3 ident))) (Some (toUpperCase (take 3 (drop 3 ident))))"
    by (rule gemini_market_from_id_symbol)
next
  assume "gemini_fetchMarketsFromWeb net symbols params s = (Inr ms, s') \<and> m \<in> set ms"
  then obtain row where "gemini_market_from_row (self s) (gemini_markup_error (self s)) row = Inr m"
    using gemini_fetchMarketsFromWeb_result by blast
  then show "\<exists>row. get_prop m ''info'' = JStr row
         \<and> symbol_from_codes rt (self s) m
             (Some (replace_first ''<td>'' [] (split row (''</td>'' @ [CHR 0x0A]) ! 2)))
             (Some (replace_first ''<td>'' [] (split row (''</td>'' @ [CHR 0x0A]) ! 1)))"
    by (rule gemini_market_from_row_symbol)
next
  assume "map_of (options ex) ''symbolSeparator'' = Some (JStr sep)"
  then show "bleutrade_parseSymbol ex ident =
        opt_string (commonCurrencyCode ex (at_index (split ident sep) 0)) @ ''/''
        @ opt_string (commonCurrencyCode ex (at_index (split ident sep) 1))"
    by (simp add: bleutrade_parseSymbol_def Let_def)
qed
text \<open>
  The theorem on the example exchange: the one market each loader returns there, and
  bleutrade's symbol for the id \<open>EPC_BTC\<close>.
\<close>

theorem market_symbols_witness:
  "fst (dx_fetchMarkets example_runtime example_net (JObj []) (fresh dx)) = Inr [dx_example_market]
   \<and> symbol_from_codes example_runtime dx dx_example_market (Some ''BCH'') (Some ''USD'')
   \<and> fst (gemini_fetchMarketsFromAPI example_net (JObj []) (fresh gemini)) = Inr [gemini_api_market]
   \<and> symbol_from_codes example_runtime gemini gemini_api_market (Some ''BTC'') (Some ''USD'')
   \<and> fst (gemini_fetchMarketsFromWeb example_net JUndefined (JObj []) (fresh gemini))
       = Inr [gemini_web_market]
   \<and> symbol_from_codes example_runtime gemini gemini_web_market (Some ''BTC'') (Some ''USD'')
   \<and> bleutrade_parseSymbol bleutrade ''EPC_BTC'' = ''Epacoin/BTC''"
proof -
  let ?r1 = "dx_fetchMarkets example_runtime example_net (JObj []) (fresh dx)"
  let ?r2 = "gemini_fetchMarketsFromAPI example_net (JObj []) (fresh gemini)"
  let ?r3 = "gemini_fetchMarketsFromWeb example_net JUndefined (JObj []) (fresh gemini)"
  have e1: "fst ?r1 = Inr [dx_example_market]"
    by (simp add: dx_fetchMarkets_def action_eval example_net_def dx_instrument_def dx_market_def
        safe_eval split_def at_index_def commonCurrencyCode_def dx_def dx_example_market_def
        example_runtime_def number_eval)
  have e2: "fst ?r2 = Inr [gemini_api_market]"
    by code_simp
  have e3: "fst ?r3 = Inr [gemini_web_market]"
    by code_simp
  have s1: "self (fresh dx) = dx" and s2: "self (fresh gemini) = gemini"
    by (simp_all add: fresh_def)
  from e1 have "?r1 = (Inr [dx_example_market], snd ?r1) \<and> dx_example_market \<in> set [dx_example_market]"
    by (simp add: prod_eq_iff)
  with market_symbols [where rt = example_runtime and s = "fresh dx" and ms = "[dx_example_market]"
      and m = dx_example_market and s' = "snd ?r1" and net = example_net and params = "JObj []"]
  obtain name where n: "safeString example_runtime
        (safeValue (get_prop dx_example_market ''info'') ''asset'' (JObj [])) ''fullName'' = Some name"
    and c1: "symbol_from_codes example_runtime (self (fresh dx)) dx_example_market
        (at_index (split name ''/'') 0) (at_index (split name ''/'') 1)"
    by blast
  from n have "name = ''BCH/USD''"
    by (simp add: dx_example_market_def dx_instrument_def safeString_def safeValue_def)
  with c1 s1 have w1: "symbol_from_codes example_runtime dx dx_example_market (Some ''BCH'') (Some ''USD'')"
    by (simp add: split_def at_index_def)
  from e2 have "?r2 = (Inr [gemini_api_market], snd ?r2) \<and> gemini_api_market \<in> set [gemini_api_market]"
    by (simp add: prod_eq_iff)
  with market_symbols [where rt = example_runtime and s = "fresh gemini" and ms = "[gemini_api_market]"
      and m = gemini_api_market and s' = "snd ?r2" and net = example_net and params = "JObj []"]
  obtain ident where i: "get_prop gemini_api_market ''info'' = JStr ident"
    and c2: "symbol_from_codes example_runtime (self (fresh gemini)) gemini_api_market
        (Some (toUpperCase (take 3 ident))) (Some (toUpperCase (take 3 (drop 3 ident))))"
    by blast
  from i have "ident = ''btcusd''"
    by (simp add: gemini_api_market_def)
  moreover have "toUpperCase (take 3 ''btcusd'') = ''BTC''"
    and "toUpperCase (take 3 (drop 3 ''btcusd'')) = ''USD''"
    by code_simp+
  ultimately have w2: "symbol_from_codes example_runtime gemini gemini_api_market (Some ''BTC'') (Some ''USD'')"
    using c2 s2 by simp
  from e3 have "?r3 = (Inr [gemini_web_market], snd ?r3) \<and> gemini_web_market \<in> set [gemini_web_market]"
    by (simp add: prod_eq_iff)
  with market_symbols [where rt = example_runtime and s = "fresh gemini" and ms = "[gemini_web_market]"
      and m = gemini_web_market and s' = "snd ?r3" and net = example_net and params = "JObj []"
      and symbols = JUndefined]
  obtain row where r: "get_prop gemini_web_market ''info'' = JStr row"
    and c3: "symbol_from_codes example_runtime (self (fresh gemini)) gemini_web_market
        (Some (replace_first ''<td>'' [] (split row (''</td>'' @ [CHR 0x0A]) ! 2)))
        (Some (replace_first ''<td>'' [] (split row (''</td>'' @ [CHR 0x0A]) ! 1)))"
    by blast
  from r have "row = gemini_row"
    by (simp add: gemini_web_market_def)
  with c3 s2 have w3: "symbol_from_codes example_runtime gemini gemini_web_market (Some ''BTC'') (Some ''USD'')"
    by (simp add: gemini_row_def split_def)
  have w4: "bleutrade_parseSymbol bleutrade ''EPC_BTC'' = ''Epacoin/BTC''"
    using market_symbols [where ex = bleutrade and sep = "''_''" and ident = "''EPC_BTC''"]
    by (simp add: bleutrade_def split_def at_index_def commonCurrencyCode_def)
  from e1 w1 e2 w2 e3 w3 w4 show ?thesis by blast
qed


subsection \<open>What an action adds to the trace\<close>

lemma emits_mono: "emits P m \<Longrightarrow> (\<And>e. P e \<Longrightarrow> Q e) \<Longrightarrow> emits Q m"
  unfolding emits_def by (meson list_all_iff)

lemma steady_emits: "steady (\<lambda>ex. True) P m \<Longrightarrow> emits P m"
  unfolding steady_def emits_def by blast

lemma steady_return: "steady I P (return x)"
  by (simp add: steady_def return_def)

lemma steady_throw: "steady I P (throw e)"
  by (simp add: steady_def throw_def)

lemma steady_lift: "steady I P (lift r)"
  by (simp add: steady_def lift_def)

lemma steady_get_this: "steady I P get_this"
  by (simp add: steady_def get_this_def)

lemma steady_log_event: "P ev \<Longrightarrow> steady I P (log_event ev)"
  by (simp add: steady_def log_event_def)

lemma steady_bind:
  assumes "steady I P m" and "\<And>x. steady I P (f x)"
  shows "steady I P (bind m f)"
  unfolding steady_def
proof (intro allI impI)
  fix s r s'
  assume a: "I (self s) \<and> bind m f s = (r, s')"
  obtain r1 s1 where m: "m s = (r1, s1)" by (cases "m s")
  from assms(1) a m obtain t1 where s1: "self s1 = self s" "trace s1 = trace s @ t1" "list_all P t1"
    unfolding steady_def by blast
  show "self s' = self s \<and> (\<exists>t. trace s' = trace s @ t \<and> list_all P t)"
  proof (cases r1)
    case (Inl e)
    with a m have "s' = s1" by (simp add: bind_def)
    with s1 show ?thesis by blast
  next
    case (Inr x)
    with a m have "f x s1 = (r, s')" by (simp add: bind_def)
    moreover from a s1 have "I (self s1)" by simp
    ultimately obtain t2 where "self s' = self s1" "trace s' = trace s1 @ t2" "list_all P t2"
      using assms(2) [of x] unfolding steady_def by blast
    with s1 show ?thesis by auto
  qed
qed

lemma steady_request: "P (Request api method path params) \<Longrightarrow> steady I P (request net api method path params)"
  unfolding request_def by (intro steady_bind steady_log_event steady_lift)

lemma steady_if: "(c \<Longrightarrow> steady I P a) \<Longrightarrow> (\<not> c \<Longrightarrow> steady I P b) \<Longrightarrow> steady I P (if c then a else b)"
  by simp

lemma steady_case_option:
  "(x = None \<Longrightarrow> steady I P a) \<Longrightarrow> (\<And>y. x = Some y \<Longrightarrow> steady I P (b y))
     \<Longrightarrow> steady I P (case x of None \<Rightarrow> a | Some y \<Rightarrow> b y)"
  by (cases x) auto

lemma steady_case_prod: "(\<And>a b. steady I P (f a b)) \<Longrightarrow> steady I P (case x of (a, b) \<Rightarrow> f a b)"
  by (cases x) auto

lemma steady_currency: "steady I P (currency code)"
  unfolding currency_def
  by (intro steady_bind steady_get_this steady_case_option steady_throw steady_return)

lemma steady_checkAddress: "steady I P (checkAddress valid address)"
  unfolding checkAddress_def
  by (intro steady_bind steady_get_this steady_if steady_throw steady_return)

lemma steady_setMarkets_emits: "emits P (setMarkets rt ms)"
  by (simp add: emits_def setMarkets_def)

lemma emits_bind:
  assumes "emits P m" and "\<And>x. emits P (f x)"
  shows "emits P (bind m f)"
  unfolding emits_def
proof (intro allI impI)
  fix s r s'
  assume a: "bind m f s = (r, s')"
  obtain r1 s1 where m: "m s = (r1, s1)" by (cases "m s")
  from assms(1) m obtain t1 where s1: "trace s1 = trace s @ t1" "list_all P t1"
    unfolding emits_def by blast
  show "\<exists>t. trace s' = trace s @ t \<and> list_all P t"
  proof (cases r1)
    case (Inl e)
    with a m have "s' = s1" by (simp add: bind_def)
    with s1 show ?thesis by blast
  next
    case (Inr x)
    with a m have "f x s1 = (r, s')" by (simp add: bind_def)
    then obtain t2 where "trace s' = trace s1 @ t2" "list_all P t2"
      using assms(2) [of x] unfolding emits_def by blast
    with s1 show ?thesis by auto
  qed
qed

lemma emits_loadMarkets:
  assumes "emits P fm" and "P LoadMarkets"
  shows "emits P (loadMarkets rt fm)"
proof -
  have 1: "emits P (log_event LoadMarkets)"
    by (intro steady_emits steady_log_event assms)
  have 2: "emits P get_this"
    by (intro steady_emits steady_get_this)
  have 3: "emits P (case markets ex of None \<Rightarrow> bind fm (setMarkets rt) | Some ms \<Rightarrow> return ())" for ex
  proof (cases "markets ex")
    case None
    then show ?thesis by (simp add: emits_bind assms steady_setMarkets_emits)
  next
    case (Some ms)
    then show ?thesis by (simp add: steady_emits steady_return)
  qed
  show ?thesis
    unfolding loadMarkets_def
    by (rule emits_bind [OF 1], rule emits_bind [OF 2], rule 3)
qed

lemma steady_market: "(\<And>b. P (ResolveSymbol symbol b)) \<Longrightarrow> steady I P (market symbol)"
  unfolding market_def resolved_def unresolved_def
  by (intro steady_bind steady_get_this steady_case_option steady_log_event steady_throw
      steady_return) auto

lemma steady_market_known:
  assumes "P (ResolveSymbol (Some sy) True)"
  shows "steady (knows sy) P (market (Some sy))"
  unfolding steady_def
proof (intro allI impI)
  fix s r s'
  assume a: "knows sy (self s) \<and> market (Some sy) s = (r, s')"
  then obtain ms m where "markets (self s) = Some ms" "map_of ms sy = Some m"
    by (auto simp: knows_def has_key_def split: option.splits)
  with a have "s' = s\<lparr>trace := trace s @ [ResolveSymbol (Some sy) True]\<rparr>"
    by (auto simp: market_def resolved_def bind_def get_this_def log_event_def return_def)
  with assms show "self s' = self s \<and> (\<exists>t. trace s' = trace s @ t \<and> list_all P t)"
    by simp
qed

lemma steady_marketId: "steady I P (market symbol) \<Longrightarrow> steady I P (marketId symbol)"
  unfolding marketId_def by (intro steady_bind steady_lift)

lemma map_of_extend:
  "map_of (extend a b) k = (case map_of b k of Some w \<Rightarrow> Some w | None \<Rightarrow> map_of a k)"
proof -
  have 1: "map_of (map (\<lambda>(k, v). (k, case map_of b k of Some w \<Rightarrow> w | None \<Rightarrow> v)) a) k
      = (case map_of a k of None \<Rightarrow> None | Some v \<Rightarrow> Some (case map_of b k of Some w \<Rightarrow> w | None \<Rightarrow> v))"
    by (induction a) (auto split: option.splits)
  have 2: "map_of a k \<noteq> None \<Longrightarrow> map_of (filter (\<lambda>(k, w). map_of a k = None) b) k = None"
    by (induction b) auto
  have 3: "map_of a k = None \<Longrightarrow> map_of (filter (\<lambda>(k, w). map_of a k = None) b) k = map_of b k"
    by (induction b) auto
  show ?thesis
    using 1 2 3 by (auto simp: extend_def map_add_def split: option.splits)
qed

lemma emits_gemini_fetchMarkets:
  assumes "\<And>p. P (Request ''web'' ''get'' ''rest-api'' p)"
    and "\<And>p. P (Request ''public'' ''get'' ''symbols'' p)"
  shows "emits P (gemini_fetchMarkets net params)"
  unfolding gemini_fetchMarkets_def gemini_fetchMarketsFromWeb_def gemini_fetchMarketsFromAPI_def
    Let_def
  by (intro steady_emits steady_bind steady_get_this steady_if steady_throw steady_request
      steady_lift assms)

lemma emits_gemini_loadMarkets:
  assumes "\<And>p. P (Request ''web'' ''get'' ''rest-api'' p)"
    and "\<And>p. P (Request ''public'' ''get'' ''symbols'' p)" and "P LoadMarkets"
  shows "emits P (gemini_loadMarkets rt net)"
  unfolding gemini_loadMarkets_def
  by (intro emits_loadMarkets emits_gemini_fetchMarkets assms)

lemma emitsD:
  "emits P m \<Longrightarrow> m s = (r, s') \<Longrightarrow> e \<in> set (trace s') \<Longrightarrow> e \<in> set (trace s) \<or> P e"
  unfolding emits_def by (fastforce simp: list_all_iff)

subsection \<open>Withdrawal to an invalid address\<close>

text \<open>
  C8. gemini's \<open>withdraw\<close> with an address that fails the validation raises
  \<open>InvalidAddress\<close> and leaves the session as it was: nothing is added to the trace (no
  request, no \<open>loadMarkets\<close>) and the exchange object is unchanged.
\<close>

theorem withdraw_invalid_address:
  "\<not> valid address \<Longrightarrow>
     gemini_withdraw rt net valid code amount address tag params s =
       (Inl (Raise InvalidAddress (ex_id (self s) @ '' address is invalid '' @ opt_string address)), s)"
  by (simp add: gemini_withdraw_def checkAddress_def bind_def get_this_def throw_def)

text \<open>The theorem for a withdrawal with no address, when an address must be given.\<close>

theorem withdraw_invalid_address_witness:
  "\<not> (\<lambda>a. a \<noteq> None) (None :: string option)
   \<and> gemini_withdraw example_runtime example_net (\<lambda>a. a \<noteq> None) ''BTC'' 1 None JUndefined []
        (fresh gemini) =
       (Inl (Raise InvalidAddress ''gemini address is invalid undefined''), fresh gemini)"
  using withdraw_invalid_address [where valid = "\<lambda>a. a \<noteq> None" and address = None
      and rt = example_runtime and net = example_net and code = "''BTC''" and amount = 1
      and tag = JUndefined and params = "[]" and s = "fresh gemini"]
  by (simp add: fresh_def gemini_def)

subsection \<open>gemini places limit orders only\<close>

lemma gemini_createOrder_market:
  "gemini_createOrder rt net now symbol ''market'' side amount price params s =
     (case gemini_loadMarkets rt net s of
        (Inl e, s1) \<Rightarrow> (Inl e, s1)
      | (Inr u, s1) \<Rightarrow> (Inl (Raise ExchangeError (ex_id (self s1) @ '' allows limit orders only'')), s1))"
  by (simp add: gemini_createOrder_def bind_def get_this_def throw_def split: prod.splits sum.splits)

lemma emits_gemini_createOrder:
  assumes "map_of params ''type'' = None"
  shows "emits (\<lambda>e. is_order_request e \<longrightarrow> get_prop (request_payload e) ''type'' = JStr ''exchange limit'')
           (gemini_createOrder rt net now symbol otype side amount price params)"
  unfolding gemini_createOrder_def Let_def
  apply (rule emits_bind)
   apply (rule emits_gemini_loadMarkets)
     apply (simp_all add: is_order_request_def)
  apply (rule steady_emits)
  apply (intro steady_bind steady_get_this steady_if steady_throw steady_marketId steady_market
      steady_case_option steady_request steady_lift)
   apply (simp_all add: is_order_request_def map_of_extend assms)
  done

text \<open>
  C9, as the code has it. With type \<open>'market'\<close>, \<open>createOrder\<close> adds no order request to
  the trace and, once \<open>loadMarkets\<close> has succeeded, raises the \<open>ExchangeError\<close> ``allows
  limit orders only'' (when \<open>loadMarkets\<close> raises, that error is what the caller gets). With
  any other type and no \<open>type\<close> key in \<open>params\<close>, every order request the call sends has
  the type \<open>'exchange limit'\<close>.
\<close>

theorem gemini_createOrder_limit_only:
  "(gemini_createOrder rt net now symbol ''market'' side amount price params s = (r, s') \<longrightarrow>
      (\<forall>e. is_order_request e \<and> e \<in> set (trace s') \<longrightarrow> e \<in> set (trace s))
      \<and> (fst (gemini_loadMarkets rt net s) = Inr () \<longrightarrow>
           r = Inl (Raise ExchangeError (ex_id (self s') @ '' allows limit orders only''))))
   \<and> (otype \<noteq> ''market'' \<and> map_of params ''type'' = None
       \<and> gemini_createOrder rt net now symbol otype side amount price params s = (r, s')
       \<and> is_order_request e \<and> e \<in> set (trace s') \<and> e \<notin> set (trace s) \<longrightarrow>
         get_prop (request_payload e) ''type'' = JStr ''exchange limit'')"
proof (intro conjI impI allI)
  fix e
  assume a: "gemini_createOrder rt net now symbol ''market'' side amount price params s = (r, s')"
    and e: "is_order_request e \<and> e \<in> set (trace s')"
  obtain r1 s1 where l: "gemini_loadMarkets rt net s = (r1, s1)"
    by (cases "gemini_loadMarkets rt net s")
  with a have "s' = s1"
    by (auto simp: gemini_createOrder_market split: sum.splits)
  moreover have "emits (\<lambda>e. \<not> is_order_request e) (gemini_loadMarkets rt net)"
    by (rule emits_gemini_loadMarkets) (simp_all add: is_order_request_def)
  ultimately show "e \<in> set (trace s)"
    using emitsD l e by blast
next
  assume a: "gemini_createOrder rt net now symbol ''market'' side amount price params s = (r, s')"
    and l: "fst (gemini_loadMarkets rt net s) = Inr ()"
  then show "r = Inl (Raise ExchangeError (ex_id (self s') @ '' allows limit orders only''))"
    by (auto simp: gemini_createOrder_market split: prod.splits sum.splits)
next
  assume a: "otype \<noteq> ''market'' \<and> map_of params ''type'' = None
       \<and> gemini_createOrder rt net now symbol otype side amount price params s = (r, s')
       \<and> is_order_request e \<and> e \<in> set (trace s') \<and> e \<notin> set (trace s)"
  then have "emits (\<lambda>e. is_order_request e \<longrightarrow> get_prop (request_payload e) ''type'' = JStr ''exchange limit'')
           (gemini_createOrder rt net now symbol otype side amount price params)"
    by (simp add: emits_gemini_createOrder)
  with a show "get_prop (request_payload e) ''type'' = JStr ''exchange limit''"
    using emitsD by blast
qed

text \<open>
  The theorem on the session with a loaded cache: a market order raises and sends
  nothing; a limit order with no \<open>type\<close> in \<open>params\<close> sends one order request, of type
  \<open>'exchange limit'\<close>.
\<close>

theorem gemini_createOrder_limit_only_witness:
  "gemini_createOrder example_runtime example_net 1 ''BTC/USD'' ''market'' ''buy'' 1 (Some 2) []
     gemini_loaded =
       (Inl (Raise ExchangeError ''gemini allows limit orders only''),
        gemini_loaded\<lparr>trace := [LoadMarkets]\<rparr>)
   \<and> fst (gemini_loadMarkets example_runtime example_net gemini_loaded) = Inr ()
   \<and> trace (snd (gemini_createOrder example_runtime example_net 1 ''BTC/USD'' ''limit'' ''buy'' 1
        (Some 2) [] gemini_loaded)) =
       [LoadMarkets, ResolveSymbol (Some ''BTC/USD'') True,
        Request ''private'' ''post'' ''order/new''
          (JObj [(''client_order_id'', JStr ''1''), (''symbol'', JStr ''btcusd''),
                 (''amount'', JStr ''1''), (''price'', JStr ''2''), (''side'', JStr ''buy''),
                 (''type'', JStr ''exchange limit'')])]"
proof -
  let ?m = "gemini_createOrder example_runtime example_net 1 ''BTC/USD'' ''market'' ''buy'' 1 (Some 2) []
     gemini_loaded"
  let ?l = "gemini_createOrder example_runtime example_net 1 ''BTC/USD'' ''limit'' ''buy'' 1
        (Some 2) [] gemini_loaded"
  let ?p = "JObj [(''client_order_id'', JStr ''1''), (''symbol'', JStr ''btcusd''),
                 (''amount'', JStr ''1''), (''price'', JStr ''2''), (''side'', JStr ''buy''),
                 (''type'', JStr ''exchange limit'')]"
  have load: "gemini_loadMarkets example_runtime example_net gemini_loaded =
      (Inr (), gemini_loaded\<lparr>trace := [LoadMarkets]\<rparr>)"
    by (simp add: gemini_loadMarkets_def loadMarkets_def action_eval gemini_loaded_def)
  have n1: "numberToString example_runtime (Num 1) = ''1''"
    and n2: "numberToString example_runtime (Num 2) = ''2''"
    by (simp_all add: example_runtime_def number_eval)
  have t: "trace (snd ?l) = [LoadMarkets, ResolveSymbol (Some ''BTC/USD'') True,
        Request ''private'' ''post'' ''order/new'' ?p]"
    unfolding gemini_createOrder_def
    by (subst bind_def, subst load)
       (simp add: bind_def get_this_def marketId_def market_def
        resolved_def log_event_def return_def lift_def request_def gemini_loaded_def
        gemini_api_market_def n1 n2 extend_def example_net_def)
  have "?m = (fst ?m, snd ?m)" by simp
  with gemini_createOrder_limit_only [where rt = example_runtime and net = example_net and now = 1
      and symbol = "''BTC/USD''" and side = "''buy''" and amount = 1 and price = "Some 2"
      and params = "[]" and s = gemini_loaded and r = "fst ?m" and s' = "snd ?m"] load
  have m: "fst ?m = Inl (Raise ExchangeError (ex_id (self (snd ?m)) @ '' allows limit orders only''))"
    by simp
  have sm: "snd ?m = gemini_loaded\<lparr>trace := [LoadMarkets]\<rparr>"
    by (simp add: gemini_createOrder_market load)
  have "ex_id (self (snd ?m)) = ''gemini''"
    by (subst sm) (simp add: gemini_loaded_def gemini_def)
  with m sm have 1: "?m = (Inl (Raise ExchangeError ''gemini allows limit orders only''),
        gemini_loaded\<lparr>trace := [LoadMarkets]\<rparr>)"
    by (simp add: prod_eq_iff)
  have "?l = (fst ?l, snd ?l)" by simp
  with gemini_createOrder_limit_only [where rt = example_runtime and net = example_net and now = 1
      and symbol = "''BTC/USD''" and side = "''buy''" and amount = 1 and price = "Some 2"
      and params = "[]" and s = gemini_loaded and r = "fst ?l" and s' = "snd ?l"
      and otype = "''limit''" and e = "Request ''private'' ''post'' ''order/new'' ?p"] t
  have "get_prop ?p ''type'' = JStr ''exchange limit''"
    by (simp add: is_order_request_def gemini_loaded_def)
  with 1 load t show ?thesis by simp
qed

text \<open>
  C9 as stated fails: \<open>params\<close> are merged over the request, so a limit order placed with
  \<open>params = {type: 'market buy'}\<close> sends an order request whose type is \<open>'market buy'\<close>.
\<close>

theorem gemini_createOrder_type_counterexample:
  "trace (snd (gemini_createOrder example_runtime example_net 1 ''BTC/USD'' ''limit'' ''buy'' 1
      (Some 2) [(''type'', JStr ''market buy'')] gemini_loaded)) =
     [LoadMarkets, ResolveSymbol (Some ''BTC/USD'') True,
      Request ''private'' ''post'' ''order/new''
        (JObj [(''client_order_id'', JStr ''1''), (''symbol'', JStr ''btcusd''),
               (''amount'', JStr ''1''), (''price'', JStr ''2''), (''side'', JStr ''buy''),
               (''type'', JStr ''market buy'')])]"
proof -
  have load: "gemini_loadMarkets example_runtime example_net gemini_loaded =
      (Inr (), gemini_loaded\<lparr>trace := [LoadMarkets]\<rparr>)"
    by (simp add: gemini_loadMarkets_def loadMarkets_def action_eval gemini_loaded_def)
  have n1: "numberToString example_runtime (Num 1) = ''1''"
    and n2: "numberToString example_runtime (Num 2) = ''2''"
    by (simp_all add: example_runtime_def number_eval)
  show ?thesis
    unfolding gemini_createOrder_def
    by (subst bind_def, subst load)
       (simp add: bind_def get_this_def marketId_def market_def
        resolved_def log_event_def return_def lift_def request_def gemini_loaded_def
        gemini_api_market_def n1 n2 extend_def example_net_def)
qed

subsection \<open>Signing a private request\<close>

lemma checkRequiredCredentials_missing:
  assumes "(key, True) \<in> set reqs"
    and "map_of (credentials ex) key = None \<or> map_of (credentials ex) key = Some []"
  shows "\<exists>k. checkRequiredCredentials ex reqs = Inl (Raise AuthenticationError (ex_id ex @ '' requires '' @ k))"
  using assms
proof (induction reqs)
  case Nil
  then show ?case by simp
next
  case (Cons a reqs)
  obtain k b where a: "a = (k, b)" by (cases a)
  show ?case
  proof (cases "b \<and> (case map_of (credentials ex) k of None \<Rightarrow> True | Some v \<Rightarrow> v = [])")
    case True
    with a show ?thesis by auto
  next
    case False
    with Cons.prems a have "(key, True) \<in> set reqs"
      by (auto split: option.splits)
    from Cons.IH [OF this Cons.prems(2)] False a show ?thesis by auto
  qed
qed

text \<open>
  C5. For a private endpoint, dx's \<open>sign\<close> raises \<open>AuthenticationError\<close> when the options
  hold no access token, and when they hold one with an expiry that the clock has reached;
  gemini's \<open>sign\<close> raises \<open>AuthenticationError\<close> when a required credential is missing. In
  each case no request is returned.
\<close>

theorem sign_fails_fast:
  "(safeString rt (JObj (options ex)) ''accessToken'' = None \<longrightarrow>
      dx_sign rt ex now_id now path ''private'' verb params headers body =
        Inl (Raise AuthenticationError
          (ex_id ex @ '' '' @ path @ '' endpoint requires a prior call to signIn() method'')))
   \<and> (safeString rt (JObj (options ex)) ''accessToken'' = Some token
       \<and> safeInteger (JObj (options ex)) ''expires'' = Some e \<and> e \<le> now \<longrightarrow>
      dx_sign rt ex now_id now path ''private'' verb params headers body =
        Inl (Raise AuthenticationError (ex_id ex @ '' accessToken expired, call signIn() method'')))
   \<and> ((key, True) \<in> set (requiredCredentials ex)
       \<and> (map_of (credentials ex) key = None \<or> map_of (credentials ex) key = Some []) \<longrightarrow>
      (\<exists>k. gemini_sign rt ex now path ''private'' verb gparams headers body =
        Inl (Raise AuthenticationError (ex_id ex @ '' requires '' @ k))))"
proof (intro conjI impI)
  assume "safeString rt (JObj (options ex)) ''accessToken'' = None"
  then show "dx_sign rt ex now_id now path ''private'' verb params headers body =
        Inl (Raise AuthenticationError
          (ex_id ex @ '' '' @ path @ '' endpoint requires a prior call to signIn() method''))"
    by (simp add: dx_sign_def Let_def)
next
  assume "safeString rt (JObj (options ex)) ''accessToken'' = Some token
       \<and> safeInteger (JObj (options ex)) ''expires'' = Some e \<and> e \<le> now"
  then show "dx_sign rt ex now_id now path ''private'' verb params headers body =
        Inl (Raise AuthenticationError (ex_id ex @ '' accessToken expired, call signIn() method''))"
    by (simp add: dx_sign_def Let_def)
next
  assume "(key, True) \<in> set (requiredCredentials ex)
       \<and> (map_of (credentials ex) key = None \<or> map_of (credentials ex) key = Some [])"
  then obtain k where
    "checkRequiredCredentials ex (requiredCredentials ex) =
       Inl (Raise AuthenticationError (ex_id ex @ '' requires '' @ k))"
    using checkRequiredCredentials_missing by blast
  then show "\<exists>k. gemini_sign rt ex now path ''private'' verb gparams headers body =
        Inl (Raise AuthenticationError (ex_id ex @ '' requires '' @ k))"
    by (auto simp: gemini_sign_def Let_def bind_result_def)
qed

text \<open>
  The theorem on dx before \<open>signIn\<close>, on dx with a token that expired at time 1000 when
  the clock shows 1000, and on gemini with no credentials.
\<close>

theorem sign_fails_fast_witness:
  "safeString example_runtime (JObj (options dx)) ''accessToken'' = None
   \<and> dx_sign example_runtime dx 1 1 ''Balance.Get'' ''private'' ''POST'' (JObj []) JUndefined JUndefined =
       Inl (Raise AuthenticationError ''dx Balance.Get endpoint requires a prior call to signIn() method'')
   \<and> safeString example_runtime (JObj (options dx_signed_in)) ''accessToken'' = Some ''token''
   \<and> safeInteger (JObj (options dx_signed_in)) ''expires'' = Some 1000
   \<and> dx_sign example_runtime dx_signed_in 1 1000 ''Balance.Get'' ''private'' ''POST'' (JObj []) JUndefined
        JUndefined =
       Inl (Raise AuthenticationError ''dx accessToken expired, call signIn() method'')
   \<and> (''apiKey'', True) \<in> set (requiredCredentials gemini)
   \<and> map_of (credentials gemini) ''apiKey'' = None
   \<and> (\<exists>k. gemini_sign example_runtime gemini 1 ''balances'' ''private'' ''POST'' [] JUndefined JUndefined =
       Inl (Raise AuthenticationError (''gemini requires '' @ k)))"
proof -
  have o: "safeString example_runtime (JObj (options dx)) ''accessToken'' = None"
    by (simp add: dx_def safeString_def)
  have t: "safeString example_runtime (JObj (options dx_signed_in)) ''accessToken'' = Some ''token''"
    by (simp add: dx_signed_in_def dx_def safeString_def)
  have x: "safeInteger (JObj (options dx_signed_in)) ''expires'' = Some 1000"
    by (simp add: dx_signed_in_def dx_def safeInteger_def)
  have g: "(''apiKey'', True) \<in> set (requiredCredentials gemini)"
    "map_of (credentials gemini) ''apiKey'' = None"
    by (simp_all add: gemini_def)
  have i: "ex_id dx = ''dx''" "ex_id dx_signed_in = ''dx''" "ex_id gemini = ''gemini''"
    by (simp_all add: dx_def dx_signed_in_def gemini_def)
  from o sign_fails_fast [where rt = example_runtime and ex = dx and now_id = 1 and now = 1
      and path = "''Balance.Get''" and verb = "''POST''" and params = "JObj []"
      and headers = JUndefined and body = JUndefined]
  have 1: "dx_sign example_runtime dx 1 1 ''Balance.Get'' ''private'' ''POST'' (JObj []) JUndefined JUndefined =
       Inl (Raise AuthenticationError ''dx Balance.Get endpoint requires a prior call to signIn() method'')"
    by (simp add: i)
  from t x sign_fails_fast [where rt = example_runtime and ex = dx_signed_in and now_id = 1
      and now = 1000 and path = "''Balance.Get''" and verb = "''POST''" and params = "JObj []"
      and headers = JUndefined and body = JUndefined and token = "''token''" and e = 1000]
  have 2: "dx_sign example_runtime dx_signed_in 1 1000 ''Balance.Get'' ''private'' ''POST'' (JObj [])
        JUndefined JUndefined =
       Inl (Raise AuthenticationError ''dx accessToken expired, call signIn() method'')"
    by (simp add: i)
  from g sign_fails_fast [where rt = example_runtime and ex = gemini and now = 1
      and path = "''balances''" and verb = "''POST''" and gparams = "[]"
      and headers = JUndefined and body = JUndefined and key = "''apiKey''"]
  have 3: "\<exists>k. gemini_sign example_runtime gemini 1 ''balances'' ''private'' ''POST'' [] JUndefined JUndefined =
       Inl (Raise AuthenticationError (''gemini requires '' @ k))"
    by (simp add: i)
  from o 1 t x 2 g 3 show ?thesis by blast
qed

subsection \<open>Parsers\<close>


lemma member_of_defined: "v \<noteq> JUndefined \<Longrightarrow> v \<noteq> JNull \<Longrightarrow> \<exists>w. member_of v k = Inr w"
  by (cases v) auto

lemma safeValue_not_null: "safeValue obj k JUndefined \<noteq> JNull"
  by (auto simp: safeValue_def split: jsval.splits)

subsection \<open>bleutrade transactions\<close>

text \<open>
  C10, as the code has it. A bleutrade transaction with a label is parsed into a record
  whose type is \<open>'withdrawal'\<close> exactly when the raw \<open>Amount\<close> is a negative number and
  \<open>'deposit'\<close> otherwise; whose status is \<open>'canceled'\<close>, with \<open>txid\<close> undefined, exactly when
  the raw \<open>TransactionId\<close> is \<open>'CANCELED'\<close>, and \<open>'ok'\<close> with the raw id otherwise; and
  whose amount is the absolute value of the raw \<open>Amount\<close> unless the label has exactly
  three parts, in which case it is the first part read as a number, whatever its sign.
\<close>

theorem bleutrade_parseTransaction_fields:
  "safeString rt transaction ''Label'' = Some lbl \<longrightarrow>
     (\<exists>r. bleutrade_parseTransaction rt ex transaction = Inr r
        \<and> get_prop r ''type'' =
            JStr (if (case safeFloat transaction ''Amount'' of None \<Rightarrow> False | Some a \<Rightarrow> a < 0)
                  then ''withdrawal'' else ''deposit'')
        \<and> get_prop r ''status'' =
            JStr (if safeString rt transaction ''TransactionId'' = Some ''CANCELED''
                  then ''canceled'' else ''ok'')
        \<and> get_prop r ''txid'' =
            (if safeString rt transaction ''TransactionId'' = Some ''CANCELED'' then JUndefined
             else opt_jsval (safeString rt transaction ''TransactionId''))
        \<and> get_prop r ''amount'' =
            (if length (split lbl '';'') = 3 then JNum (parseFloat (split lbl '';'' ! 0))
             else opt_num (map_option abs (safeFloat transaction ''Amount''))))"
proof
  assume l: "safeString rt transaction ''Label'' = Some lbl"
  let ?c = "safeValue (JObj (currencies_by_id ex)) (opt_string (safeString rt transaction ''Coin'')) JUndefined"
  have "\<exists>code. (if ?c \<noteq> JUndefined then member_of ?c ''code''
            else Inr (opt_jsval (commonCurrencyCode ex (safeString rt transaction ''Coin'')))) = Inr code"
    using member_of_defined [of ?c "''code''"] safeValue_not_null by auto
  then obtain code where c: "(if ?c \<noteq> JUndefined then member_of ?c ''code''
            else Inr (opt_jsval (commonCurrencyCode ex (safeString rt transaction ''Coin'')))) = Inr code"
    by blast
  show "\<exists>r. bleutrade_parseTransaction rt ex transaction = Inr r
        \<and> get_prop r ''type'' =
            JStr (if (case safeFloat transaction ''Amount'' of None \<Rightarrow> False | Some a \<Rightarrow> a < 0)
                  then ''withdrawal'' else ''deposit'')
        \<and> get_prop r ''status'' =
            JStr (if safeString rt transaction ''TransactionId'' = Some ''CANCELED''
                  then ''canceled'' else ''ok'')
        \<and> get_prop r ''txid'' =
            (if safeString rt transaction ''TransactionId'' = Some ''CANCELED'' then JUndefined
             else opt_jsval (safeString rt transaction ''TransactionId''))
        \<and> get_prop r ''amount'' =
            (if length (split lbl '';'') = 3 then JNum (parseFloat (split lbl '';'' ! 0))
             else opt_num (map_option abs (safeFloat transaction ''Amount'')))"
    unfolding bleutrade_parseTransaction_def Let_def
    by (subst c) (auto simp: bind_result_def l split: option.splits)
qed

text \<open>
  The theorem on a deposit \<open>{Amount: '12.5', Label: 'addr'}\<close>: the amount of the record is
  12.5, its type \<open>'deposit'\<close>, its status \<open>'ok'\<close>.
\<close>

theorem bleutrade_parseTransaction_fields_witness:
  "safeString example_runtime (JObj [(''Amount'', JStr ''12.5''), (''Label'', JStr ''addr'')]) ''Label''
     = Some ''addr''
   \<and> (\<exists>r. bleutrade_parseTransaction example_runtime bleutrade
            (JObj [(''Amount'', JStr ''12.5''), (''Label'', JStr ''addr'')]) = Inr r
        \<and> get_prop r ''type'' = JStr ''deposit''
        \<and> get_prop r ''status'' = JStr ''ok''
        \<and> get_prop r ''txid'' = JUndefined
        \<and> get_prop r ''amount'' = JNum (Num (25 / 2)))"
proof -
  let ?t = "JObj [(''Amount'', JStr ''12.5''), (''Label'', JStr ''addr'')]"
  have l: "safeString example_runtime ?t ''Label'' = Some ''addr''"
    by (simp add: safeString_def)
  have a: "safeFloat ?t ''Amount'' = Some (25 / 2)"
    by (simp add: safe_eval)
  have i: "safeString example_runtime ?t ''TransactionId'' = None"
    by (simp add: safeString_def)
  have s: "length (split ''addr'' '';'') \<noteq> 3"
    by (simp add: split_def)
  from bleutrade_parseTransaction_fields [where rt = example_runtime and ex = bleutrade
      and transaction = ?t and lbl = "''addr''"] l
  show ?thesis
    by (simp add: a i s)
qed

text \<open>
  C10 as stated fails on the amount: the amount of the record is taken from the first
  part of a three-part label as it stands, so it is negative when that part is.
\<close>

theorem bleutrade_parseTransaction_amount_counterexample:
  "(case bleutrade_parseTransaction example_runtime bleutrade bleutrade_negative_label of
      Inl e \<Rightarrow> JUndefined | Inr r \<Rightarrow> get_prop r ''amount'') = JNum (Num (- 5))"
proof -
  have p: "parseFloat ''-5'' = Num (- 5)" "parseFloat ''0'' = Num 0"
    by (simp_all add: safe_eval)
  have s: "split ''-5;addr;0'' '';'' = [''-5'', ''addr'', ''0'']"
    by (simp add: split_def)
  show ?thesis
    by (simp add: bleutrade_parseTransaction_def bleutrade_negative_label_def Let_def
        bind_result_def safeString_def safeValue_def safeFloat_def bleutrade_def
        commonCurrencyCode_def s p example_runtime_def)
qed

subsection \<open>A ticker without a time\<close>

text \<open>
  C6 at dx's \<open>parseTicker\<close>: for a ticker payload with no \<open>time\<close> field the timestamp of
  the record is \<open>NaN\<close>, the quotient of \<open>undefined\<close> by 1000, and not \<open>undefined\<close>; the
  fields read with \<open>safeFloat\<close> alone (\<open>high\<close>, \<open>baseVolume\<close>) are \<open>undefined\<close>.
\<close>

theorem dx_parseTicker_missing_time:
  "(case dx_parseTicker example_runtime dx_loaded dx_tickers_without_time JUndefined of
      Inl e \<Rightarrow> [] | Inr r \<Rightarrow> [get_prop r ''timestamp'', get_prop r ''high'', get_prop r ''baseVolume''])
   = [JNum NaN, JUndefined, JUndefined]"
proof -
  have n: "numberToString example_runtime (Num 1001) = ''1001''"
    by (simp add: example_runtime_def number_eval)
  have i: "safeInteger (JObj [(''a'', JStr ''1001'')]) ''a'' = Some 1001"
    by (simp add: safe_eval)
  have f: "safeInteger (JObj [(''last'', JStr ''5'')]) ''time'' = None"
    "safeFloat (JObj [(''last'', JStr ''5'')]) ''high24'' = None"
    "safeFloat (JObj [(''last'', JStr ''5'')]) ''volume24'' = None"
    by (simp_all add: safeInteger_def safeFloat_def)
  show ?thesis
    by (simp add: dx_parseTicker_def dx_tickers_without_time_def bind_result_def at_index_def
        i n f Let_def symbol_by_id_def dx_loaded_def dx_example_market_def)
qed

subsection \<open>The info field\<close>

























subsection \<open>Markets are loaded before a symbol is resolved\<close>

lemma steady_market_ok:
  "steady (knows sy) (\<lambda>e. e \<noteq> ResolveSymbol (Some sy) False) (market sa)"
proof (cases "sa = Some sy")
  case True
  then show ?thesis by (simp add: steady_market_known)
next
  case False
  then show ?thesis by (intro steady_market) auto
qed

lemma scoped_return: "symbol_scoped sy (return x)"
  by (simp add: symbol_scoped_def steady_return)

lemma scoped_throw: "symbol_scoped sy (throw e)"
  by (simp add: symbol_scoped_def steady_throw)

lemma scoped_lift: "symbol_scoped sy (lift r)"
  by (simp add: symbol_scoped_def steady_lift)

lemma scoped_get_this: "symbol_scoped sy get_this"
  by (simp add: symbol_scoped_def steady_get_this)

lemma scoped_request: "symbol_scoped sy (request net api method path params)"
  by (simp add: symbol_scoped_def steady_request)

lemma scoped_market: "symbol_scoped sy (market sa)"
  by (simp add: symbol_scoped_def steady_market steady_market_ok)

lemma scoped_bind:
  "symbol_scoped sy m \<Longrightarrow> (\<And>x. symbol_scoped sy (f x)) \<Longrightarrow> symbol_scoped sy (bind m f)"
  by (simp add: symbol_scoped_def steady_bind)

lemma scoped_marketId: "symbol_scoped sy (marketId sa)"
  unfolding marketId_def by (intro scoped_bind scoped_market scoped_lift)

lemma scoped_if:
  "(c \<Longrightarrow> symbol_scoped sy a) \<Longrightarrow> (\<not> c \<Longrightarrow> symbol_scoped sy b) \<Longrightarrow> symbol_scoped sy (if c then a else b)"
  by simp

lemma scoped_case_option:
  "(x = None \<Longrightarrow> symbol_scoped sy a) \<Longrightarrow> (\<And>y. x = Some y \<Longrightarrow> symbol_scoped sy (b y))
     \<Longrightarrow> symbol_scoped sy (case x of None \<Rightarrow> a | Some y \<Rightarrow> b y)"
  by (cases x) auto

lemma scoped_case_prod:
  "(\<And>a b. symbol_scoped sy (f a b)) \<Longrightarrow> symbol_scoped sy (case x of (a, b) \<Rightarrow> f a b)"
  by (cases x) auto

lemmas scoped_intros = scoped_bind scoped_return scoped_throw scoped_lift scoped_get_this
  scoped_request scoped_market scoped_marketId scoped_if scoped_case_option scoped_case_prod

lemma loadMarkets_run:
  assumes fm: "steady (\<lambda>ex. True) is_request fm"
    and run: "loadMarkets rt fm s = (r, s1)"
  shows "\<exists>t. trace s1 = trace s @ LoadMarkets # t \<and> list_all is_request t
           \<and> (r = Inr () \<and> symbol_known rt fm s sy \<longrightarrow> knows sy (self s1))"
proof (cases "markets (self s)")
  case (Some ms)
  with run have "s1 = s\<lparr>trace := trace s @ [LoadMarkets]\<rparr>"
    by (auto simp: loadMarkets_def bind_def log_event_def get_this_def return_def)
  with Some show ?thesis
    by (simp add: symbol_known_def knows_def)
next
  case None
  let ?s0 = "s\<lparr>trace := trace s @ [LoadMarkets]\<rparr>"
  obtain rf sf where f: "fm ?s0 = (rf, sf)" by (cases "fm ?s0")
  with fm obtain t where t: "self sf = self ?s0" "trace sf = trace ?s0 @ t" "list_all is_request t"
    unfolding steady_def by blast
  from run None f have r: "(r, s1) = (case rf of Inl e \<Rightarrow> (Inl e, sf) | Inr ms \<Rightarrow> setMarkets rt ms sf)"
    by (simp add: loadMarkets_def bind_def log_event_def get_this_def)
  show ?thesis
  proof (cases rf)
    case (Inl e)
    with r t show ?thesis by simp
  next
    case (Inr ms)
    with r have "s1 = snd (setMarkets rt ms sf)" "r = Inr ()"
      by (simp_all add: setMarkets_def)
    with t None f Inr show ?thesis
      by (simp add: setMarkets_def symbol_known_def knows_def)
  qed
qed

lemma cache_first_loadMarkets:
  assumes fm: "steady (\<lambda>ex. True) is_request fm"
    and body: "symbol_scoped sy body"
  shows "cache_first rt fm sy (bind (loadMarkets rt fm) (\<lambda>u. body)) s"
proof -
  obtain r1 s1 where l: "loadMarkets rt fm s = (r1, s1)" by (cases "loadMarkets rt fm s")
  from loadMarkets_run [OF fm l, of sy] obtain t where
    t: "trace s1 = trace s @ LoadMarkets # t" "list_all is_request t"
      "r1 = Inr () \<and> symbol_known rt fm s sy \<longrightarrow> knows sy (self s1)"
    by auto
  let ?m = "bind (loadMarkets rt fm) (\<lambda>u. body)"
  show ?thesis
  proof (cases r1)
    case (Inl err)
    with l have "snd (?m s) = s1" by (simp add: bind_def)
    with t have "emitted ?m s = LoadMarkets # t" by (simp add: emitted_def)
    with t show ?thesis
      by (auto simp: cache_first_def list_all_iff elim: is_request.elims)
  next
    case (Inr u)
    obtain r2 s2 where b: "body s1 = (r2, s2)" by (cases "body s1")
    with l Inr have m: "snd (?m s) = s2" by (simp add: bind_def)
    from body b obtain t2 where t2: "trace s2 = trace s1 @ t2"
      unfolding symbol_scoped_def steady_def by blast
    with t m have e: "emitted ?m s = LoadMarkets # t @ t2" by (simp add: emitted_def)
    have k: "ResolveSymbol (Some sy) False \<notin> set (t @ t2)" if "symbol_known rt fm s sy"
    proof -
      from that t Inr have "knows sy (self s1)" by simp
      with body b obtain t3 where
        "trace s2 = trace s1 @ t3" "list_all (\<lambda>e. e \<noteq> ResolveSymbol (Some sy) False) t3"
        unfolding symbol_scoped_def steady_def by blast
      with t t2 show ?thesis
        by (auto simp: list_all_iff elim: is_request.elims)
    qed
    from e k show ?thesis by (simp add: cache_first_def)
  qed
qed

lemma cache_first_get_this:
  "cache_first rt fm sy (f (self s)) s \<Longrightarrow> cache_first rt fm sy (bind get_this f) s"
  by (simp add: cache_first_def emitted_def bind_def get_this_def)

lemma cache_first_then_lift:
  "cache_first rt fm sy m s \<Longrightarrow> cache_first rt fm sy (bind m (\<lambda>x. lift (g x))) s"
  by (auto simp: cache_first_def emitted_def bind_def lift_def split: prod.splits sum.splits)

lemma steady_dx_fetchMarkets: "steady (\<lambda>ex. True) is_request (dx_fetchMarkets rt net params)"
  unfolding dx_fetchMarkets_def
  by (intro steady_bind steady_get_this steady_request steady_lift) simp

lemma steady_gemini_fetchMarkets: "steady (\<lambda>ex. True) is_request (gemini_fetchMarkets net params)"
  unfolding gemini_fetchMarkets_def gemini_fetchMarketsFromWeb_def gemini_fetchMarketsFromAPI_def
    Let_def
  by (intro steady_bind steady_get_this steady_if steady_throw steady_request steady_lift)
    simp_all

lemma cache_first_dx_fetchTicker:
  "cache_first rt (dx_fetchMarkets rt net (JObj [])) sy (dx_fetchTicker rt net symbol params) s"
  unfolding dx_fetchTicker_def dx_loadMarkets_def Let_def
  by (intro cache_first_loadMarkets steady_dx_fetchMarkets scoped_intros)

lemma cache_first_dx_fetchOHLCV:
  "cache_first rt (dx_fetchMarkets rt net (JObj [])) sy
     (dx_fetchOHLCV rt net symbol timeframe since limit params) s"
  unfolding dx_fetchOHLCV_def dx_loadMarkets_def Let_def
  by (intro cache_first_loadMarkets steady_dx_fetchMarkets scoped_intros)

lemma cache_first_dx_fetchOrdersFrom:
  "cache_first rt (dx_fetchMarkets rt net (JObj [])) sy
     (dx_fetchOrdersFrom rt net path field symbol since limit params) s"
  unfolding dx_fetchOrdersFrom_def dx_loadMarkets_def Let_def
  by (intro cache_first_loadMarkets steady_dx_fetchMarkets scoped_intros)

lemma cache_first_dx_fetchOrderBook:
  "cache_first rt (dx_fetchMarkets rt net (JObj [])) sy (dx_fetchOrderBook rt net symbol limit params) s"
  unfolding dx_fetchOrderBook_def dx_loadMarkets_def Let_def
  by (intro cache_first_loadMarkets steady_dx_fetchMarkets scoped_intros)

lemma cache_first_dx_createOrder:
  "cache_first rt (dx_fetchMarkets rt net (JObj [])) sy
     (dx_createOrder rt net symbol otype side amount price params) s"
  unfolding dx_createOrder_def dx_loadMarkets_def Let_def
  by (intro cache_first_loadMarkets steady_dx_fetchMarkets scoped_intros)

lemma cache_first_gemini_fetchOrderBook:
  "cache_first rt (gemini_fetchMarkets net (JObj [])) sy
     (gemini_fetchOrderBook rt net symbol limit params) s"
  unfolding gemini_fetchOrderBook_def gemini_loadMarkets_def Let_def
  by (intro cache_first_loadMarkets steady_gemini_fetchMarkets scoped_intros)

lemma cache_first_gemini_fetchTicker:
  "cache_first rt (gemini_fetchMarkets net (JObj [])) sy (gemini_fetchTicker rt net symbol params) s"
  unfolding gemini_fetchTicker_def gemini_loadMarkets_def Let_def
  by (intro cache_first_loadMarkets steady_gemini_fetchMarkets scoped_intros)

lemma cache_first_gemini_fetchTrades:
  "cache_first rt (gemini_fetchMarkets net (JObj [])) sy
     (gemini_fetchTrades rt net symbol since limit params) s"
  unfolding gemini_fetchTrades_def gemini_loadMarkets_def Let_def
  by (intro cache_first_loadMarkets steady_gemini_fetchMarkets scoped_intros)

lemma cache_first_gemini_fetchOpenOrders:
  "cache_first rt (gemini_fetchMarkets net (JObj [])) sy
     (gemini_fetchOpenOrders rt net symbol since limit params) s"
  unfolding gemini_fetchOpenOrders_def gemini_loadMarkets_def Let_def
  by (intro cache_first_loadMarkets steady_gemini_fetchMarkets scoped_intros)

lemma cache_first_gemini_createOrder:
  "cache_first rt (gemini_fetchMarkets net (JObj [])) sy
     (gemini_createOrder rt net now symbol otype side amount price params) s"
  unfolding gemini_createOrder_def gemini_loadMarkets_def Let_def
  by (intro cache_first_loadMarkets steady_gemini_fetchMarkets scoped_intros)

lemma cache_first_gemini_fetchMyTrades:
  "cache_first rt (gemini_fetchMarkets net (JObj [])) sy
     (gemini_fetchMyTrades rt net (Some symbol) since limit params) s"
  unfolding gemini_fetchMyTrades_def gemini_loadMarkets_def Let_def option.case
  by (intro cache_first_get_this cache_first_loadMarkets steady_gemini_fetchMarkets scoped_intros)

lemma cache_first_bleutrade_fetchOrders:
  "steady (\<lambda>ex. True) is_request fm \<Longrightarrow>
     cache_first rt fm sy (bleutrade_fetchOrders rt net fm symbol since limit params) s"
  unfolding bleutrade_fetchOrders_def Let_def
  by (intro cache_first_loadMarkets scoped_intros)

lemma cache_first_bleutrade_fetchClosedOrders:
  "steady (\<lambda>ex. True) is_request fm \<Longrightarrow>
     cache_first rt fm sy (bleutrade_fetchClosedOrders rt net fm symbol since limit params) s"
  unfolding bleutrade_fetchClosedOrders_def
  by (intro cache_first_then_lift cache_first_bleutrade_fetchOrders)

lemma cache_first_bleutrade_fetchOrderBook:
  "steady (\<lambda>ex. True) is_request fm \<Longrightarrow>
     cache_first rt fm sy (bleutrade_fetchOrderBook rt net fm symbol limit params) s"
  unfolding bleutrade_fetchOrderBook_def Let_def
  by (intro cache_first_loadMarkets scoped_intros)

lemma cache_first_bleutrade_fetchOHLCV:
  "steady (\<lambda>ex. True) is_request fm \<Longrightarrow>
     cache_first rt fm sy (bleutrade_fetchOHLCV rt net fm symbol timeframe since limit params) s"
  unfolding bleutrade_fetchOHLCV_def Let_def
  by (intro cache_first_loadMarkets scoped_intros)

text \<open>
  C7. Every method of the three adapters that resolves the symbol it is given calls
  \<open>loadMarkets\<close>, and that call is the first thing the method does: it precedes every
  resolution of a symbol and every request of the method. When the symbol is valid (it
  is in the market cache, or the cache is empty and the loader fetches a market with this
  symbol) no resolution of it fails, whether the cache was populated before the call or
  not. For bleutrade, whose loader is inherited, the loader is any action that only sends
  requests and leaves the exchange object as it is.
\<close>

theorem loadMarkets_before_symbol:
  assumes "steady (\<lambda>ex. True) is_request fm"
  shows "cache_first rt (dx_fetchMarkets rt net (JObj [])) sy (dx_fetchTicker rt net sy params) s
    \<and> cache_first rt (dx_fetchMarkets rt net (JObj [])) sy
        (dx_fetchOHLCV rt net sy timeframe since limit params) s
    \<and> cache_first rt (dx_fetchMarkets rt net (JObj [])) sy
        (dx_fetchOpenOrders rt net (Some sy) since limit params) s
    \<and> cache_first rt (dx_fetchMarkets rt net (JObj [])) sy
        (dx_fetchClosedOrders rt net (Some sy) since limit params) s
    \<and> cache_first rt (dx_fetchMarkets rt net (JObj [])) sy
        (dx_fetchOrderBook rt net sy limit params) s
    \<and> cache_first rt (dx_fetchMarkets rt net (JObj [])) sy
        (dx_createOrder rt net sy otype side amount price params) s
    \<and> cache_first rt (gemini_fetchMarkets net (JObj [])) sy
        (gemini_fetchOrderBook rt net sy limit params) s
    \<and> cache_first rt (gemini_fetchMarkets net (JObj [])) sy
        (gemini_fetchTicker rt net sy params) s
    \<and> cache_first rt (gemini_fetchMarkets net (JObj [])) sy
        (gemini_fetchTrades rt net sy since limit params) s
    \<and> cache_first rt (gemini_fetchMarkets net (JObj [])) sy
        (gemini_fetchOpenOrders rt net (Some sy) since limit params) s
    \<and> cache_first rt (gemini_fetchMarkets net (JObj [])) sy
        (gemini_createOrder rt net now sy otype side amount price params) s
    \<and> cache_first rt (gemini_fetchMarkets net (JObj [])) sy
        (gemini_fetchMyTrades rt net (Some sy) start limit params) s
    \<and> cache_first rt fm sy (bleutrade_fetchOrders rt net fm (Some sy) since limit params) s
    \<and> cache_first rt fm sy (bleutrade_fetchClosedOrders rt net fm (Some sy) since limit params) s
    \<and> cache_first rt fm sy (bleutrade_fetchOrderBook rt net fm sy limit params) s
    \<and> cache_first rt fm sy (bleutrade_fetchOHLCV rt net fm sy timeframe since limit params) s"
proof (intro conjI)
  show "cache_first rt (dx_fetchMarkets rt net (JObj [])) sy (dx_fetchTicker rt net sy params) s"
    by (rule cache_first_dx_fetchTicker)
  show "cache_first rt (dx_fetchMarkets rt net (JObj [])) sy
        (dx_fetchOHLCV rt net sy timeframe since limit params) s"
    by (rule cache_first_dx_fetchOHLCV)
  show "cache_first rt (dx_fetchMarkets rt net (JObj [])) sy
        (dx_fetchOpenOrders rt net (Some sy) since limit params) s"
    unfolding dx_fetchOpenOrders_def by (rule cache_first_dx_fetchOrdersFrom)
  show "cache_first rt (dx_fetchMarkets rt net (JObj [])) sy
        (dx_fetchClosedOrders rt net (Some sy) since limit params) s"
    unfolding dx_fetchClosedOrders_def by (rule cache_first_dx_fetchOrdersFrom)
  show "cache_first rt (dx_fetchMarkets rt net (JObj [])) sy
        (dx_fetchOrderBook rt net sy limit params) s"
    by (rule cache_first_dx_fetchOrderBook)
  show "cache_first rt (dx_fetchMarkets rt net (JObj [])) sy
        (dx_createOrder rt net sy otype side amount price params) s"
    by (rule cache_first_dx_createOrder)
  show "cache_first rt (gemini_fetchMarkets net (JObj [])) sy
        (gemini_fetchOrderBook rt net sy limit params) s"
    by (rule cache_first_gemini_fetchOrderBook)
  show "cache_first rt (gemini_fetchMarkets net (JObj [])) sy
        (gemini_fetchTicker rt net sy params) s"
    by (rule cache_first_gemini_fetchTicker)
  show "cache_first rt (gemini_fetchMarkets net (JObj [])) sy
        (gemini_fetchTrades rt net sy since limit params) s"
    by (rule cache_first_gemini_fetchTrades)
  show "cache_first rt (gemini_fetchMarkets net (JObj [])) sy
        (gemini_fetchOpenOrders rt net (Some sy) since limit params) s"
    by (rule cache_first_gemini_fetchOpenOrders)
  show "cache_first rt (gemini_fetchMarkets net (JObj [])) sy
        (gemini_createOrder rt net now sy otype side amount price params) s"
    by (rule cache_first_gemini_createOrder)
  show "cache_first rt (gemini_fetchMarkets net (JObj [])) sy
        (gemini_fetchMyTrades rt net (Some sy) start limit params) s"
    by (rule cache_first_gemini_fetchMyTrades)
  show "cache_first rt fm sy (bleutrade_fetchOrders rt net fm (Some sy) since limit params) s"
    by (rule cache_first_bleutrade_fetchOrders [OF assms])
  show "cache_first rt fm sy (bleutrade_fetchClosedOrders rt net fm (Some sy) since limit params) s"
    by (rule cache_first_bleutrade_fetchClosedOrders [OF assms])
  show "cache_first rt fm sy (bleutrade_fetchOrderBook rt net fm sy limit params) s"
    by (rule cache_first_bleutrade_fetchOrderBook [OF assms])
  show "cache_first rt fm sy (bleutrade_fetchOHLCV rt net fm sy timeframe since limit params) s"
    by (rule cache_first_bleutrade_fetchOHLCV [OF assms])
qed

text \<open>
  The theorem for gemini's \<open>fetchTicker\<close> and bleutrade's \<open>fetchOrderBook\<close>, each called
  with a valid symbol on an exchange object whose market cache is empty, and what the
  call of \<open>fetchOrderBook\<close> does there, in order.
\<close>

theorem loadMarkets_before_symbol_witness:
  "markets (self (fresh gemini)) = None
   \<and> symbol_known example_runtime (gemini_fetchMarkets example_net (JObj [])) (fresh gemini) ''BTC/USD''
   \<and> loads_first
       (emitted (gemini_fetchTicker example_runtime example_net ''BTC/USD'' []) (fresh gemini))
   \<and> ResolveSymbol (Some ''BTC/USD'') False
       \<notin> set (emitted (gemini_fetchTicker example_runtime example_net ''BTC/USD'' []) (fresh gemini))
   \<and> markets (self (fresh bleutrade)) = None
   \<and> symbol_known example_runtime bleutrade_loader (fresh bleutrade) ''Epacoin/BTC''
   \<and> loads_first
       (emitted (bleutrade_fetchOrderBook example_runtime example_net bleutrade_loader
          ''Epacoin/BTC'' JUndefined []) (fresh bleutrade))
   \<and> ResolveSymbol (Some ''Epacoin/BTC'') False
       \<notin> set (emitted (bleutrade_fetchOrderBook example_runtime example_net bleutrade_loader
          ''Epacoin/BTC'' JUndefined []) (fresh bleutrade))
   \<and> emitted (bleutrade_fetchOrderBook example_runtime example_net bleutrade_loader
          ''Epacoin/BTC'' JUndefined []) (fresh bleutrade) =
       [LoadMarkets, ResolveSymbol (Some ''Epacoin/BTC'') True,
        Request ''public'' ''get'' ''orderbook''
          (JObj [(''market'', JStr ''EPC_BTC''), (''type'', JStr ''ALL'')])]"
proof -
  have tr: "emitted (bleutrade_fetchOrderBook example_runtime example_net bleutrade_loader
          ''Epacoin/BTC'' JUndefined []) (fresh bleutrade) =
       [LoadMarkets, ResolveSymbol (Some ''Epacoin/BTC'') True,
        Request ''public'' ''get'' ''orderbook''
          (JObj [(''market'', JStr ''EPC_BTC''), (''type'', JStr ''ALL'')])]"
    by (simp add: emitted_def bleutrade_fetchOrderBook_def loadMarkets_def action_eval
        bleutrade_loader_def setMarkets_def index_by_def bleutrade_example_market_def
        marketId_def market_def resolved_def unresolved_def extend_def example_net_def
        currencies_of_def bleutrade_def Let_def)
  have st: "steady (\<lambda>ex. True) is_request bleutrade_loader"
    unfolding bleutrade_loader_def by (rule steady_return)
  have e: "markets (self (fresh gemini)) = None" "markets (self (fresh bleutrade)) = None"
    by (simp_all add: fresh_def gemini_def bleutrade_def)
  let ?s0 = "(fresh gemini)\<lparr>trace := trace (fresh gemini) @ [LoadMarkets]\<rparr>"
  have "fst (gemini_fetchMarkets example_net (JObj []) ?s0) = Inr [gemini_web_market]"
    by code_simp
  moreover obtain r s' where p: "gemini_fetchMarkets example_net (JObj []) ?s0 = (r, s')"
    by (cases "gemini_fetchMarkets example_net (JObj []) ?s0")
  ultimately have r: "r = Inr [gemini_web_market]" by simp
  have k1: "symbol_known example_runtime (gemini_fetchMarkets example_net (JObj [])) (fresh gemini)
      ''BTC/USD''"
    unfolding symbol_known_def
    by (simp add: e p r index_by_def gemini_web_market_def has_key_def)
  have k2: "symbol_known example_runtime bleutrade_loader (fresh bleutrade) ''Epacoin/BTC''"
    by (simp add: symbol_known_def fresh_def bleutrade_def bleutrade_loader_def return_def
        index_by_def bleutrade_example_market_def has_key_def)
  note g = loadMarkets_before_symbol [OF st, where rt = example_runtime and net = example_net
      and sy = "''BTC/USD''" and params = "[]" and s = "fresh gemini"]
  note b = loadMarkets_before_symbol [OF st, where rt = example_runtime and net = example_net
      and sy = "''Epacoin/BTC''" and params = "[]" and s = "fresh bleutrade" and limit = JUndefined]
  from g [THEN conjunct2, THEN conjunct2, THEN conjunct2, THEN conjunct2, THEN conjunct2,
      THEN conjunct2, THEN conjunct2, THEN conjunct1]
  have "cache_first example_runtime (gemini_fetchMarkets example_net (JObj [])) ''BTC/USD''
      (gemini_fetchTicker example_runtime example_net ''BTC/USD'' []) (fresh gemini)"
    .
  with k1 have 1: "loads_first
       (emitted (gemini_fetchTicker example_runtime example_net ''BTC/USD'' []) (fresh gemini))"
    "ResolveSymbol (Some ''BTC/USD'') False
       \<notin> set (emitted (gemini_fetchTicker example_runtime example_net ''BTC/USD'' []) (fresh gemini))"
    by (simp_all add: cache_first_def)
  from b [THEN conjunct2, THEN conjunct2, THEN conjunct2, THEN conjunct2, THEN conjunct2,
      THEN conjunct2, THEN conjunct2, THEN conjunct2, THEN conjunct2, THEN conjunct2,
      THEN conjunct2, THEN conjunct2, THEN conjunct2, THEN conjunct2, THEN conjunct1]
  have "cache_first example_runtime bleutrade_loader ''Epacoin/BTC''
      (bleutrade_fetchOrderBook example_runtime example_net bleutrade_loader
          ''Epacoin/BTC'' JUndefined []) (fresh bleutrade)"
    .
  with k2 have 2: "loads_first
       (emitted (bleutrade_fetchOrderBook example_runtime example_net bleutrade_loader
          ''Epacoin/BTC'' JUndefined []) (fresh bleutrade))"
    "ResolveSymbol (Some ''Epacoin/BTC'') False
       \<notin> set (emitted (bleutrade_fetchOrderBook example_runtime example_net bleutrade_loader
          ''Epacoin/BTC'' JUndefined []) (fresh bleutrade))"
    by (simp_all add: cache_first_def)
  from e k1 k2 1 2 tr show ?thesis by (intro conjI)
qed

subsection \<open>Decimal strings, written and read back\<close>




































subsection \<open>Rounding to a double\<close>


lemma pow2_powi: "pow2 e = 2 powi e"
  by (simp add: pow2_def power_int_def inverse_eq_divide power_divide)


lemma pow2_add: "pow2 (a + b) = pow2 a * pow2 b"
  by (simp add: pow2_powi power_int_add)



















end
